theory Spec2Isabelle
  imports Complex_Main "HOL-Library.Sublist"
begin

section \<open>Python string operations used by the deployer\<close>

text \<open>
  Strings are lists of 8-bit characters, read as code points below 256.
  The console messages of the script start with an emoji; the model leaves the emoji
  (and the blank after it) out of every message, and the leading newline as well.
\<close>

text \<open>
  \<open>find_sub sep s\<close> finds the leftmost occurrence of \<open>sep\<close> in \<open>s\<close> and returns the text
  before it and the text after it (Python's \<open>str.partition\<close>, with \<open>None\<close> when there is no
  occurrence).
\<close>

fun find_sub :: "string \<Rightarrow> string \<Rightarrow> (string \<times> string) option" where
  "find_sub sep [] = (if sep = [] then Some ([], []) else None)"
| "find_sub sep (c # cs) =
     (if prefix sep (c # cs) then Some ([], drop (length sep) (c # cs))
      else (case find_sub sep cs of
              None \<Rightarrow> None
            | Some (a, b) \<Rightarrow> Some (c # a, b)))"

text \<open>Python's \<open>sub in s\<close>.\<close>

definition contains :: "string \<Rightarrow> string \<Rightarrow> bool" where
  "contains sub s = (find_sub sub s \<noteq> None)"

lemma find_sub_shorter:
  "find_sub sep s = Some (a, b) \<Longrightarrow> sep \<noteq> [] \<Longrightarrow> length b < length s"
proof (induction s arbitrary: a b)
  case Nil
  then show ?case by simp
next
  case (Cons c cs)
  show ?case
  proof (cases "prefix sep (c # cs)")
    case True
    with Cons.prems have "b = drop (length sep) (c # cs)" by simp
    with Cons.prems(2) show ?thesis by (cases sep) simp_all
  next
    case False
    with Cons.prems obtain a' where "find_sub sep cs = Some (a', b)"
      by (auto split: option.splits)
    with Cons.IH Cons.prems(2) have "length b < length cs" by blast
    then show ?thesis by simp
  qed
qed

text \<open>
  Python's \<open>s.split(sep)\<close> for a non-empty separator: the pieces between the
  non-overlapping occurrences of \<open>sep\<close>, found from the left. Python raises
  \<open>ValueError\<close> for an empty separator; the script only splits at the three literals
  below, so the model returns the unsplit string there.
\<close>

function split_py :: "string \<Rightarrow> string \<Rightarrow> string list" where
  "split_py sep s =
     (if sep = [] then [s]
      else (case find_sub sep s of
              None \<Rightarrow> [s]
            | Some (a, b) \<Rightarrow> a # split_py sep b))"
  by pat_completeness auto
termination
  by (relation "measure (\<lambda>(sep, s). length s)") (auto dest: find_sub_shorter)

declare split_py.simps [simp del]

text \<open>
  Python's \<open>str.isspace\<close> on the code points below 256: tab to carriage return, the four
  separators 28 to 31, the blank, NEL (133) and the no-break space (160).
\<close>

definition isspace :: "char \<Rightarrow> bool" where
  "isspace c = (of_char c \<in> {9, 10, 11, 12, 13, 28, 29, 30, 31, 32, 133, 160 :: nat})"

text \<open>Python's \<open>s.strip()\<close>.\<close>

definition strip :: "string \<Rightarrow> string" where
  "strip s = rev (dropWhile isspace (rev (dropWhile isspace s)))"

definition newline :: string where
  "newline = [CHR 0x0A]"

section \<open>Data model\<close>

record ChainConfig =
  name :: string
  rpc_url :: string
  chain_id :: int
  native_token :: string
  relayer_type :: string

record DeploymentResult =
  chain :: string
  contract_address :: string
  program_id :: string
  tx_hash :: string
  gas_used :: string
  relayer_fee :: string
  timestamp :: int

text \<open>The \<open>sync_data\<close> dictionary of \<open>sync_cross_chain\<close> and its nested \<open>sacred_state\<close>.\<close>

record SacredState =
  matrix_level :: int
  earnings_pool :: int
  allowlist :: "string list"

record SyncData =
  source_chain :: string
  target_chain :: string
  source_address :: string
  target_address :: string
  sacred_state :: SacredState
  sync_timestamp :: int

text \<open>Exceptions the script can raise from its own expressions.\<close>

datatype py_error = ValueError | KeyError | IndexError

fun str_of_error :: "py_error \<Rightarrow> string" where
  "str_of_error ValueError = ''could not convert string to float''"
| "str_of_error KeyError = ''key''"
| "str_of_error IndexError = ''list index out of range''"

text \<open>
  What \<open>generate_report\<close> prints, as a structure: the two joined sets are printed in
  the iteration order of a Python set, which the language leaves open, and the time of
  each deployment is kept as the number of seconds it was recorded with.
\<close>

record Detail =
  detail_index :: nat
  detail_chain :: string
  detail_address :: string
  detail_gas_used :: "string \<times> string"
  detail_relayer_fee :: "string \<times> string"
  detail_timestamp :: int

record Report =
  total_deployments :: nat
  savings_line :: string
  chains_deployed :: "string set"
  relayer_types :: "string set"
  rebate_system :: bool
  details :: "Detail list"
  cross_chain_status :: string

datatype printed = Line string | SyncOut SyncData | ReportOut Report

subsection \<open>The outside world\<close>

text \<open>
  Everything the script reads from outside is a field of \<open>World\<close>: the module-level
  settings read from the process environment, the outcome of each subprocess, and the
  clock at the three places that read it.

  \<^item> \<open>probe\<close>: a \<open>subprocess.run([tool, '--version'])\<close> either completes with some
    standard output or raises \<open>FileNotFoundError\<close>.
  \<^item> \<open>build\<close>: \<open>subprocess.run(['anchor', 'build'], check=True)\<close> returns, raises
    \<open>CalledProcessError\<close> (non-zero exit) or raises another exception; the string is
    the text of the exception.
  \<^item> \<open>proc\<close>: a deploy script completes with return code, stdout and stderr, or the
    call raises an exception with the given text.
\<close>

datatype probe = Found string | NotFound

datatype build = Built | CalledProcessError string | BuildException string

datatype proc = Completed int string string | Raised string

record World =
  SOLANA_RPC :: string
  SKALE_RPC :: string
  SKALE_CHAIN_ID :: int
  PRIVATE_KEY :: string
  ENABLE_REBATES :: bool
  node_version :: probe
  python3_version :: probe
  anchor_version :: probe
  hardhat_version :: probe
  anchor_build :: build
  solana_deploy :: proc
  skale_deploy :: proc
  solana_clock :: int
  skale_clock :: int
  sync_clock :: int

subsection \<open>The deployer object\<close>

text \<open>
  The fields of \<open>MultiChainDeployer\<close>: the dictionary \<open>chains\<close> (an association list
  in insertion order), the list \<open>deployments\<close>, and the console the methods print to.
\<close>

record Deployer =
  chains :: "(string \<times> ChainConfig) list"
  deployments :: "DeploymentResult list"
  console :: "printed list"

definition println :: "string \<Rightarrow> Deployer \<Rightarrow> Deployer" where
  "println msg s = s\<lparr>console := console s @ [Line msg]\<rparr>"

definition join_comma :: "string list \<Rightarrow> string" where
  "join_comma xs = concat (case xs of [] \<Rightarrow> [] | y # ys \<Rightarrow> y # map (\<lambda>z. '', '' @ z) ys)"

definition init :: "World \<Rightarrow> Deployer" where
  "init w =
     (let chains0 =
            [(''solana'', \<lparr>name = ''Solana'', rpc_url = SOLANA_RPC w, chain_id = 101,
                            native_token = ''SOL'', relayer_type = ''octane''\<rparr>),
             (''skale'', \<lparr>name = ''SKALE'', rpc_url = SKALE_RPC w, chain_id = SKALE_CHAIN_ID w,
                           native_token = ''sFUEL'', relayer_type = ''biconomy''\<rparr>)];
          s = \<lparr>chains = chains0, deployments = [], console = []\<rparr>
      in println (''Configured chains: '' @ join_comma (map fst chains0))
           (println ''Mint Gene Co-Deployer - Multi-Chain Synchronization'' s))"

section \<open>The methods of \<open>MultiChainDeployer\<close>\<close>

subsection \<open>\<open>check_environment\<close>\<close>

definition check_environment :: "World \<Rightarrow> Deployer \<Rightarrow> bool \<times> Deployer" where
  "check_environment w s0 =
     (let s1 = println ''Checking deployment environment...'' s0 in
      case node_version w of
        NotFound \<Rightarrow> (False, println ''Node.js not found'' s1)
      | Found v1 \<Rightarrow>
          (let s2 = println (''Node.js: '' @ strip v1) s1 in
           case python3_version w of
             NotFound \<Rightarrow> (False, println ''Python3 not found'' s2)
           | Found v2 \<Rightarrow>
               (let s3 = println (''Python: '' @ strip v2) s2;
                    s4 = (case anchor_version w of
                            NotFound \<Rightarrow>
                              println ''Anchor CLI not found - install with: npm i -g @project-serum/anchor-cli'' s3
                          | Found v3 \<Rightarrow> println (''Anchor CLI: '' @ strip v3) s3);
                    s5 = (case hardhat_version w of
                            NotFound \<Rightarrow>
                              println ''Hardhat not found - install with: npm install -g hardhat'' s4
                          | Found v4 \<Rightarrow> println (''Hardhat: '' @ strip v4) s4)
                in if PRIVATE_KEY w = ''your_private_key_here''
                   then (False, println ''Private key not configured in .env'' s5)
                   else (True, println ''Private key configured'' s5))))"

subsection \<open>\<open>deploy_solana\<close> and \<open>deploy_skale\<close>\<close>

text \<open>
  The loop over the lines of the standard output: the first line that contains the
  marker decides, and the value is the second piece of that line split at the marker,
  stripped. \<open>[1]\<close> raises \<open>IndexError\<close> on a list shorter than two.
\<close>

fun find_marker :: "string \<Rightarrow> string list \<Rightarrow> py_error + string option" where
  "find_marker marker [] = Inr None"
| "find_marker marker (line # lines) =
     (if contains marker line
      then (case split_py marker line of
              _ # v # _ \<Rightarrow> Inr (Some (strip v))
            | _ \<Rightarrow> Inl IndexError)
      else find_marker marker lines)"

text \<open>Python's truth value of an \<open>Optional[str]\<close>: \<open>None\<close> and the empty string are false.\<close>

fun truthy :: "string option \<Rightarrow> bool" where
  "truthy None = False"
| "truthy (Some v) = (v \<noteq> [])"

definition deploy_solana :: "World \<Rightarrow> Deployer \<Rightarrow> DeploymentResult option \<times> Deployer" where
  "deploy_solana w s0 =
     (let s1 = println ''Deploying to Solana...'' s0;
          s2 = println ''Building Anchor program...'' s1 in
      case anchor_build w of
        CalledProcessError e \<Rightarrow> (None, println (''Solana deployment error: '' @ e) s2)
      | BuildException e \<Rightarrow> (None, println (''Unexpected error: '' @ e) s2)
      | Built \<Rightarrow>
          (let s3 = println ''Running zero-cost deployment...'' s2 in
           case solana_deploy w of
             Raised e \<Rightarrow> (None, println (''Unexpected error: '' @ e) s3)
           | Completed returncode stdout stderr \<Rightarrow>
               if returncode = 0 then
                 (case find_marker ''Program ID:'' (split_py newline stdout) of
                    Inl e \<Rightarrow> (None, println (''Unexpected error: '' @ str_of_error e) s3)
                  | Inr found \<Rightarrow>
                      if truthy found then
                        (let pid = the found;
                             deployment =
                               \<lparr>chain = ''solana'', contract_address = pid, program_id = pid,
                                tx_hash = ''relayer_tx_hash'', gas_used = ''0'',
                                relayer_fee = ''0.001'', timestamp = solana_clock w\<rparr>;
                             s4 = s3\<lparr>deployments := deployments s3 @ [deployment]\<rparr>
                         in (Some deployment,
                             println (''Solana deployment successful: '' @ pid) s4))
                      else (None,
                            println ''Could not extract program ID from deployment output'' s3))
               else (None, println (''Solana deployment failed: '' @ stderr) s3)))"

definition deploy_skale :: "World \<Rightarrow> Deployer \<Rightarrow> DeploymentResult option \<times> Deployer" where
  "deploy_skale w s0 =
     (let s1 = println ''Deploying to SKALE...'' s0;
          s2 = println ''Running zero-cost deployment...'' s1 in
      case skale_deploy w of
        Raised e \<Rightarrow> (None, println (''Unexpected error: '' @ e) s2)
      | Completed returncode stdout stderr \<Rightarrow>
          if returncode = 0 then
            (case find_marker ''Contract Address:'' (split_py newline stdout) of
               Inl e \<Rightarrow> (None, println (''Unexpected error: '' @ str_of_error e) s2)
             | Inr found \<Rightarrow>
                 if truthy found then
                   (let addr = the found;
                        deployment =
                          \<lparr>chain = ''skale'', contract_address = addr, program_id = addr,
                           tx_hash = ''relayer_tx_hash'', gas_used = ''0'',
                           relayer_fee = ''0.01'', timestamp = skale_clock w\<rparr>;
                        s3 = s2\<lparr>deployments := deployments s2 @ [deployment]\<rparr>
                    in (Some deployment,
                        println (''SKALE deployment successful: '' @ addr) s3))
                 else (None,
                       println ''Could not extract contract address from deployment output'' s2))
          else (None, println (''SKALE deployment failed: '' @ stderr) s2))"

subsection \<open>\<open>sync_cross_chain\<close>\<close>

text \<open>
  The method reads its two arguments and the clock, prints, and returns a truth value;
  it touches no field of the deployer, so the model returns what it prints. No
  expression of its \<open>try\<close> block raises in this model (attribute reads, a dictionary
  literal, \<open>json.dumps\<close> of strings and integers, printing), so the \<open>except\<close> branch has
  no counterpart here.
\<close>

definition sync_cross_chain ::
    "World \<Rightarrow> DeploymentResult \<Rightarrow> DeploymentResult \<Rightarrow> bool \<times> printed list" where
  "sync_cross_chain w solana_deployment skale_deployment =
     (let sync_data =
            \<lparr>source_chain = ''solana'', target_chain = ''skale'',
             source_address = contract_address solana_deployment,
             target_address = contract_address skale_deployment,
             sacred_state =
               \<lparr>matrix_level = 1, earnings_pool = 0,
                allowlist = [contract_address solana_deployment,
                             contract_address skale_deployment]\<rparr>,
             sync_timestamp = sync_clock w\<rparr>
      in (True,
          [Line ''Synchronizing cross-chain state...'',
           Line ''Establishing Wormhole connection...'',
           Line (''Bridging from Solana: '' @ contract_address solana_deployment),
           Line (''Bridging to SKALE: '' @ contract_address skale_deployment),
           Line ''Sacred state synchronized:'',
           SyncOut sync_data,
           Line ''Cross-chain synchronization complete'']))"

subsection \<open>\<open>generate_report\<close>\<close>

text \<open>
  Which strings Python's \<open>float\<close> accepts, on code points below 256; every other
  string raises \<open>ValueError\<close>. \<open>float\<close> strips blanks from both ends (tab to carriage
  return, the blank, NEL and the no-break space; not the separators 28 to 31), takes out
  the underscores that stand between two digits and refuses any other underscore, and
  then reads an optional sign followed either by a decimal number (digits with an
  optional point and at least one digit, then an optional exponent) or by \<open>inf\<close>,
  \<open>infinity\<close> or \<open>nan\<close> in any case.
\<close>

definition isdigit :: "char \<Rightarrow> bool" where
  "isdigit c = (48 \<le> (of_char c :: nat) \<and> (of_char c :: nat) \<le> 57)"

definition float_space :: "char \<Rightarrow> bool" where
  "float_space c = (of_char c \<in> {9, 10, 11, 12, 13, 32, 133, 160 :: nat})"

fun without_underscores :: "char \<Rightarrow> string \<Rightarrow> string option" where
  "without_underscores prev [] = (if prev = CHR ''_'' then None else Some [])"
| "without_underscores prev (c # cs) =
     (if c = CHR ''_''
      then (if isdigit prev then without_underscores c cs else None)
      else if prev = CHR ''_'' \<and> \<not> isdigit c then None
      else (case without_underscores c cs of
              None \<Rightarrow> None
            | Some r \<Rightarrow> Some (c # r)))"

definition lower_ascii :: "char \<Rightarrow> char" where
  "lower_ascii c =
     (if 65 \<le> (of_char c :: nat) \<and> (of_char c :: nat) \<le> 90
      then char_of ((of_char c :: nat) + 32) else c)"

definition unsigned :: "string \<Rightarrow> string" where
  "unsigned s =
     (case s of
        [] \<Rightarrow> []
      | c # cs \<Rightarrow> if c = CHR ''+'' \<or> c = CHR ''-'' then cs else s)"

definition exponent_ok :: "string \<Rightarrow> bool" where
  "exponent_ok s =
     (case s of
        [] \<Rightarrow> True
      | c # cs \<Rightarrow>
          (c = CHR ''e'' \<or> c = CHR ''E'') \<and> unsigned cs \<noteq> [] \<and> list_all isdigit (unsigned cs))"

definition decimal_ok :: "string \<Rightarrow> bool" where
  "decimal_ok s =
     (let ip = takeWhile isdigit s; r = dropWhile isdigit s in
      case r of
        [] \<Rightarrow> ip \<noteq> []
      | c # cs \<Rightarrow>
          if c = CHR ''.''
          then (ip \<noteq> [] \<or> takeWhile isdigit cs \<noteq> []) \<and> exponent_ok (dropWhile isdigit cs)
          else ip \<noteq> [] \<and> exponent_ok r)"

definition float_accepts :: "string \<Rightarrow> bool" where
  "float_accepts s =
     (let t = rev (dropWhile float_space (rev (dropWhile float_space s))) in
      case without_underscores (CHR 0x00) t of
        None \<Rightarrow> False
      | Some u \<Rightarrow>
          decimal_ok (unsigned u)
          \<or> map lower_ascii (unsigned u) \<in> {''inf'', ''infinity'', ''nan''})"

text \<open>
  \<open>sum(float(d.relayer_fee) for d in self.deployments)\<close>: one accumulator, from the
  integer 0, to which the fees are added from the left. The value is a double; the
  model does no floating-point arithmetic and keeps the sum as the expression the code
  evaluates: \<open>Plus acc fee\<close> is \<open>acc + float(fee)\<close>.
\<close>

datatype float_sum = Int0 | Plus float_sum string

fun sum_fees :: "float_sum \<Rightarrow> DeploymentResult list \<Rightarrow> py_error + float_sum" where
  "sum_fees acc [] = Inr acc"
| "sum_fees acc (d # ds) =
     (if float_accepts (relayer_fee d)
      then sum_fees (Plus acc (relayer_fee d)) ds
      else Inl ValueError)"

text \<open>The local \<open>total_savings\<close> of \<open>generate_report\<close>.\<close>

definition total_savings :: "DeploymentResult list \<Rightarrow> py_error + float_sum" where
  "total_savings ds = sum_fees Int0 ds"

text \<open>\<open>self.chains[d.chain]\<close> for each deployment in turn; a missing key raises.\<close>

fun lookup_chains ::
    "(string \<times> ChainConfig) list \<Rightarrow> DeploymentResult list \<Rightarrow> py_error + ChainConfig list" where
  "lookup_chains cs [] = Inr []"
| "lookup_chains cs (d # ds) =
     (case map_of cs (chain d) of
        None \<Rightarrow> Inl KeyError
      | Some c \<Rightarrow> (case lookup_chains cs ds of Inl e \<Rightarrow> Inl e | Inr rest \<Rightarrow> Inr (c # rest)))"

definition detail_of :: "nat \<times> DeploymentResult \<times> ChainConfig \<Rightarrow> Detail" where
  "detail_of x =
     (case x of (i, deployment, c) \<Rightarrow>
        \<lparr>detail_index = i, detail_chain = chain deployment,
         detail_address = contract_address deployment,
         detail_gas_used = (gas_used deployment, native_token c),
         detail_relayer_fee = (relayer_fee deployment, native_token c),
         detail_timestamp = timestamp deployment\<rparr>)"

text \<open>
  Line 263 of the source is not valid Python: it holds \<open>print(".2f"\<close> run together
  with the print of the relayer types. The model reads it as those two prints, the first
  of which prints the text \<open>.2f\<close>: no statement of the method prints \<open>total_savings\<close>,
  which is computed (and can raise) and then not used. The report is printed as one
  structured value. An exception leaves the method before its later prints, and the
  caller does not catch it.
\<close>

definition generate_report :: "World \<Rightarrow> Deployer \<Rightarrow> py_error + Deployer" where
  "generate_report w s =
     (let n = length (deployments s) in
      case total_savings (deployments s) of
        Inl e \<Rightarrow> Inl e
      | Inr savings \<Rightarrow>
          (case lookup_chains (chains s) (deployments s) of
             Inl e \<Rightarrow> Inl e
           | Inr cfgs \<Rightarrow>
               Inr (s\<lparr>console := console s @
                      [Line ''Deployment Report'',
                       ReportOut
                         \<lparr>total_deployments = n,
                          savings_line = ''.2f'',
                          chains_deployed = set (map chain (deployments s)),
                          relayer_types = set (map relayer_type cfgs),
                          rebate_system = ENABLE_REBATES w,
                          details = map detail_of (zip [1 ..< Suc n] (zip (deployments s) cfgs)),
                          cross_chain_status =
                            (if n \<ge> 2 then ''Synchronized''
                             else ''Single chain deployment only'')\<rparr>]\<rparr>)))"

subsection \<open>\<open>run_full_deployment\<close>\<close>

text \<open>The closing lines of the run: the explorer link of each recorded deployment.\<close>

fun explorer_links :: "DeploymentResult list \<Rightarrow> printed list" where
  "explorer_links [] = []"
| "explorer_links (d # ds) =
     (if chain d = ''solana''
      then [Line (''   Solana: https://solscan.io/account/'' @ contract_address d)]
      else if chain d = ''skale''
      then [Line (''   SKALE: https://elated-tan-skat.explorer.mainnet.skalenodes.com/address/''
                  @ contract_address d)]
      else []) @ explorer_links ds"

definition report_and_finish :: "World \<Rightarrow> Deployer \<Rightarrow> py_error + Deployer" where
  "report_and_finish w s =
     (case generate_report w s of
        Inl e \<Rightarrow> Inl e
      | Inr s' \<Rightarrow>
          Inr (s'\<lparr>console := console s' @
                 [Line ''Mint Gene Co-Deployer - Multi-Chain Deployment Complete!'',
                  Line ''View deployments on respective explorers:'']
                 @ explorer_links (deployments s')\<rparr>))"

text \<open>
  The orchestrator, with the bridge step it calls as a parameter: the method awaits
  \<open>self.sync_cross_chain\<close> and drops what it returns. \<open>run_full_deployment\<close> is the run of
  the script, with the method above.
\<close>

definition run_full_deployment_with ::
    "(World \<Rightarrow> DeploymentResult \<Rightarrow> DeploymentResult \<Rightarrow> bool \<times> printed list)
     \<Rightarrow> World \<Rightarrow> Deployer \<Rightarrow> py_error + Deployer" where
  "run_full_deployment_with sync w s0 =
     (let s1 = println ''Starting Mint Gene Co-Deployer Multi-Chain Deployment'' s0;
          (ok, s2) = check_environment w s1 in
      if \<not> ok
      then Inr (println ''Environment check failed. Please fix issues and try again.'' s2)
      else
        (let (solana_result, s3) = deploy_solana w s2;
             (skale_result, s4) = deploy_skale w s3 in
         case (solana_result, skale_result) of
           (Some a, Some b) \<Rightarrow>
             report_and_finish w (s4\<lparr>console := console s4 @ snd (sync w a b)\<rparr>)
         | (Some a, None) \<Rightarrow>
             report_and_finish w
               (println ''Only Solana deployment successful. SKALE deployment failed.'' s4)
         | (None, Some b) \<Rightarrow>
             report_and_finish w
               (println ''Only SKALE deployment successful. Solana deployment failed.'' s4)
         | (None, None) \<Rightarrow> Inr (println ''Both deployments failed.'' s4)))"

definition run_full_deployment :: "World \<Rightarrow> Deployer \<Rightarrow> py_error + Deployer" where
  "run_full_deployment = run_full_deployment_with sync_cross_chain"

text \<open>\<open>main\<close>: a fresh deployer, then the run.\<close>

definition main :: "World \<Rightarrow> py_error + Deployer" where
  "main w = run_full_deployment w (init w)"

section \<open>Reading the console\<close>

text \<open>The sync records and the reports a run has printed, in order.\<close>

fun sync_records :: "printed list \<Rightarrow> SyncData list" where
  "sync_records [] = []"
| "sync_records (SyncOut d # xs) = d # sync_records xs"
| "sync_records (Line l # xs) = sync_records xs"
| "sync_records (ReportOut r # xs) = sync_records xs"

fun reports :: "printed list \<Rightarrow> Report list" where
  "reports [] = []"
| "reports (ReportOut r # xs) = r # reports xs"
| "reports (Line l # xs) = reports xs"
| "reports (SyncOut d # xs) = reports xs"

section \<open>Example worlds\<close>

text \<open>
  A world in which every tool is present, the key is configured, the build succeeds and
  both deploy scripts exit with status 0 and print their marker line; and variations of
  it in which one thing is different.
\<close>

definition world_ok :: World where
  "world_ok =
     \<lparr>SOLANA_RPC = ''https://solana.example'', SKALE_RPC = ''https://skale.example'',
      SKALE_CHAIN_ID = 2046399126, PRIVATE_KEY = ''0xkey'', ENABLE_REBATES = True,
      node_version = Found ''v18.0.0'', python3_version = Found ''Python 3.11.4'',
      anchor_version = Found ''anchor-cli 0.29.0'', hardhat_version = Found ''2.19.0'',
      anchor_build = Built,
      solana_deploy =
        Completed 0 (''Deploying...'' @ newline @ ''Program ID: ABC123'' @ newline) [],
      skale_deploy = Completed 0 ''Contract Address: 0xdef'' [],
      solana_clock = 100, skale_clock = 200, sync_clock = 300\<rparr>"

definition world_no_node :: World where
  "world_no_node = world_ok\<lparr>node_version := NotFound\<rparr>"

definition world_no_tools :: World where
  "world_no_tools = world_ok\<lparr>anchor_version := NotFound, hardhat_version := NotFound\<rparr>"

definition world_unparseable :: World where
  "world_unparseable =
     world_ok\<lparr>solana_deploy := Completed 0 (''Deploying...'' @ newline @ ''done'') [],
              skale_deploy := Completed 0 ''Deployed'' []\<rparr>"

definition world_failed :: World where
  "world_failed =
     world_ok\<lparr>solana_deploy := Completed 1 [] ''insufficient funds'',
              skale_deploy := Completed 2 [] ''rpc unreachable''\<rparr>"

definition world_skale_failed :: World where
  "world_skale_failed = world_ok\<lparr>skale_deploy := Completed 2 [] ''rpc unreachable''\<rparr>"

text \<open>
  Two worlds in which the Solana deploy script exits with status 0 and prints two lines
  with the marker: in the first the earlier line has no value, in the second the two
  lines carry different values.
\<close>

definition world_blank_marker :: World where
  "world_blank_marker =
     world_ok\<lparr>solana_deploy :=
       Completed 0 (''Program ID: '' @ newline @ ''Program ID: XYZ'') []\<rparr>"

definition world_two_markers :: World where
  "world_two_markers =
     world_ok\<lparr>solana_deploy :=
       Completed 0 (''Program ID: AAA'' @ newline @ ''Program ID: BBB'') []\<rparr>"

text \<open>The results the two deployers record in \<open>world_ok\<close>.\<close>

definition solana_ABC123 :: DeploymentResult where
  "solana_ABC123 =
     \<lparr>chain = ''solana'', contract_address = ''ABC123'', program_id = ''ABC123'',
      tx_hash = ''relayer_tx_hash'', gas_used = ''0'', relayer_fee = ''0.001'',
      timestamp = 100\<rparr>"

definition skale_0xdef :: DeploymentResult where
  "skale_0xdef =
     \<lparr>chain = ''skale'', contract_address = ''0xdef'', program_id = ''0xdef'',
      tx_hash = ''relayer_tx_hash'', gas_used = ''0'', relayer_fee = ''0.01'',
      timestamp = 200\<rparr>"

text \<open>An optional result as the list of results it holds.\<close>

fun list_of_option :: "'a option \<Rightarrow> 'a list" where
  "list_of_option None = []"
| "list_of_option (Some x) = [x]"

section \<open>Fees and tokens\<close>

text \<open>
  The native token of the chain a deployment names, \<open>self.chains[d.chain].native_token\<close>,
  when the chain is configured, and the fee strings a sum adds, from the left.
\<close>

definition token_of :: "(string \<times> ChainConfig) list \<Rightarrow> DeploymentResult \<Rightarrow> string option" where
  "token_of cs d = map_option native_token (map_of cs (chain d))"

fun operands :: "float_sum \<Rightarrow> string list" where
  "operands Int0 = []"
| "operands (Plus acc fee) = operands acc @ [fee]"

section \<open>Derived notions of the report and the run\<close>

text \<open>The report of a ledger whose fees all parse and whose chains are all configured.\<close>

definition report_of :: "World \<Rightarrow> Deployer \<Rightarrow> Report" where
  "report_of w s =
     \<lparr>total_deployments = length (deployments s),
      savings_line = ''.2f'',
      chains_deployed = set (map chain (deployments s)),
      relayer_types =
        set (map relayer_type (map (\<lambda>d. the (map_of (chains s) (chain d))) (deployments s))),
      rebate_system = ENABLE_REBATES w,
      details =
        map detail_of
          (zip [1 ..< Suc (length (deployments s))]
             (zip (deployments s)
                (map (\<lambda>d. the (map_of (chains s) (chain d))) (deployments s)))),
      cross_chain_status =
        (if length (deployments s) \<ge> 2 then ''Synchronized''
         else ''Single chain deployment only'')\<rparr>"

text \<open>\<open>finished w s\<close> is \<open>s\<close> with the report and the closing lines of the run printed.\<close>

definition finished :: "World \<Rightarrow> Deployer \<Rightarrow> Deployer" where
  "finished w s =
     s\<lparr>console := console s @
         [Line ''Deployment Report'', ReportOut (report_of w s),
          Line ''Mint Gene Co-Deployer - Multi-Chain Deployment Complete!'',
          Line ''View deployments on respective explorers:'']
         @ explorer_links (deployments s)\<rparr>"

text \<open>
  The deployer as \<open>run_full_deployment\<close> has it after the environment check and the two
  deploy calls, and the successive deployers of a run that passes the check: at the
  start, after the first message, after the check, after each deploy call, and at the
  end of the run.
\<close>

definition deployed :: "World \<Rightarrow> Deployer \<Rightarrow> Deployer" where
  "deployed w s0 =
     snd (deploy_skale w
       (snd (deploy_solana w
         (snd (check_environment w
           (println ''Starting Mint Gene Co-Deployer Multi-Chain Deployment'' s0))))))"

definition run_states :: "World \<Rightarrow> Deployer \<Rightarrow> Deployer list" where
  "run_states w s0 =
     (let s1 = println ''Starting Mint Gene Co-Deployer Multi-Chain Deployment'' s0;
          s2 = snd (check_environment w s1);
          s3 = snd (deploy_solana w s2);
          s4 = snd (deploy_skale w s3)
      in (if fst (check_environment w s1) then [s0, s1, s2, s3, s4] else [s0, s1, s2])
         @ (case run_full_deployment w s0 of Inl e \<Rightarrow> [] | Inr s' \<Rightarrow> [s']))"

text \<open>What a detail block of the report shows of a deployment, and the same of a result.\<close>

definition detail_shown :: "Detail \<Rightarrow> string \<times> string \<times> string \<times> string \<times> int" where
  "detail_shown x =
     (detail_chain x, detail_address x, fst (detail_gas_used x), fst (detail_relayer_fee x),
      detail_timestamp x)"

definition result_shown :: "DeploymentResult \<Rightarrow> string \<times> string \<times> string \<times> string \<times> int" where
  "result_shown d = (chain d, contract_address d, gas_used d, relayer_fee d, timestamp d)"

section \<open>Facts about the string operations\<close>

lemma contains_Cons: "contains m (c # s) = (prefix m (c # s) \<or> contains m s)"
  by (auto simp: contains_def split: option.splits)

text \<open>
  A separator whose first character does not occur again in it cannot overlap itself:
  an occurrence that starts before a copy of the separator lies wholly before it.
\<close>

lemma no_straddle:
  assumes "p \<notin> set ms" and "\<not> prefix (p # ms) (c # a)"
  shows "\<not> prefix (p # ms) (c # a @ (p # ms) @ b)"
proof
  assume h: "prefix (p # ms) (c # a @ (p # ms) @ b)"
  then have pc: "p = c" by simp
  from h have "prefix ms (a @ (p # ms @ b))" by auto
  then consider "prefix ms a" | us where "ms = a @ us" "prefix us (p # ms @ b)"
    by (auto simp: prefix_append)
  then show False
  proof cases
    case 1
    with pc assms(2) show False by simp
  next
    case 2
    show False
    proof (cases us)
      case Nil
      with 2 pc assms(2) show False by simp
    next
      case (Cons u us')
      with 2 have "u = p" by simp
      with 2 Cons assms(1) show False by simp
    qed
  qed
qed

lemma find_sub_first:
  assumes "m \<noteq> []" and "hd m \<notin> set (tl m)" and "\<not> contains m a"
  shows "find_sub m (a @ m @ b) = Some (a, b)"
  using assms(3)
proof (induction a)
  case Nil
  from assms(1) show ?case by (cases m) simp_all
next
  case (Cons c a)
  from assms(1) obtain p ms where m: "m = p # ms" by (cases m) auto
  from Cons.prems have np: "\<not> prefix m (c # a)" and nc: "\<not> contains m a"
    by (simp_all add: contains_Cons)
  from assms(2) m have "p \<notin> set ms" by simp
  with np m have "\<not> prefix m (c # a @ m @ b)" using no_straddle [of p ms c a b] by simp
  moreover from Cons.IH nc have "find_sub m (a @ m @ b) = Some (a, b)" by blast
  ultimately show ?case by simp
qed

lemma split_py_first:
  assumes "m \<noteq> []" and "hd m \<notin> set (tl m)" and "\<not> contains m a"
  shows "split_py m (a @ m @ b) = a # split_py m b"
  using find_sub_first [OF assms, of b] assms(1)
  by (subst split_py.simps) simp

lemma split_py_none: "\<not> contains m s \<Longrightarrow> split_py m s = [s]"
proof -
  assume "\<not> contains m s"
  then have "find_sub m s = None" by (cases "find_sub m s") (simp_all add: contains_def)
  then show ?thesis by (subst split_py.simps) simp
qed

lemma contains_marker_append:
  assumes "m \<noteq> []" and "hd m \<notin> set (tl m)" and "\<not> contains m a"
  shows "contains m (a @ m @ b)"
  using find_sub_first [OF assms, of b] by (simp add: contains_def)

lemma find_marker_first:
  assumes "m \<noteq> []" and "hd m \<notin> set (tl m)"
    and "\<forall>l \<in> set before. \<not> contains m l"
    and "\<not> contains m pre" and "\<not> contains m rest"
  shows "find_marker m (before @ (pre @ m @ rest) # after) = Inr (Some (strip rest))"
  using assms(3)
proof (induction before)
  case Nil
  have "split_py m (pre @ m @ rest) = [pre, rest]"
    using split_py_first [OF assms(1,2,4), of rest] split_py_none [OF assms(5)] by simp
  moreover have "contains m (pre @ m @ rest)"
    by (rule contains_marker_append [OF assms(1,2,4)])
  ultimately show ?case by simp
next
  case (Cons l before)
  then show ?case by simp
qed

lemma find_marker_none:
  "\<forall>l \<in> set ls. \<not> contains m l \<Longrightarrow> find_marker m ls = Inr None"
  by (induction ls) simp_all

section \<open>Facts about the methods\<close>

lemma fst_check_environment: "fst (check_environment w s) = fst (check_environment w s')"
  by (simp add: check_environment_def Let_def split: probe.splits)

lemma fst_deploy_solana: "fst (deploy_solana w s) = fst (deploy_solana w s')"
  by (simp add: deploy_solana_def Let_def split: build.splits proc.splits sum.splits)

lemma fst_deploy_skale: "fst (deploy_skale w s) = fst (deploy_skale w s')"
  by (simp add: deploy_skale_def Let_def split: proc.splits sum.splits)

lemma check_environment_frame:
  "deployments (snd (check_environment w s)) = deployments s
   \<and> chains (snd (check_environment w s)) = chains s"
  by (simp add: check_environment_def Let_def println_def split: probe.splits)

lemma deploy_solana_ledger:
  "deployments (snd (deploy_solana w s)) =
     deployments s @ list_of_option (fst (deploy_solana w s))"
  by (simp add: deploy_solana_def Let_def println_def
           split: build.splits proc.splits sum.splits)

lemma deploy_skale_ledger:
  "deployments (snd (deploy_skale w s)) =
     deployments s @ list_of_option (fst (deploy_skale w s))"
  by (simp add: deploy_skale_def Let_def println_def split: proc.splits sum.splits)

lemma deploy_chains:
  "chains (snd (deploy_solana w s)) = chains s \<and> chains (snd (deploy_skale w s)) = chains s"
  by (simp add: deploy_solana_def deploy_skale_def Let_def println_def
           split: build.splits proc.splits sum.splits)

lemma generate_report_frame:
  "generate_report w s = Inr s' \<Longrightarrow> deployments s' = deployments s \<and> chains s' = chains s"
  by (auto simp: generate_report_def Let_def split: sum.splits)

lemma report_and_finish_frame:
  "report_and_finish w s = Inr s' \<Longrightarrow> deployments s' = deployments s \<and> chains s' = chains s"
  by (auto simp: report_and_finish_def split: sum.splits dest: generate_report_frame)

lemma run_full_deployment_with_unfold:
  "run_full_deployment_with sync w s0 =
     (let s1 = println ''Starting Mint Gene Co-Deployer Multi-Chain Deployment'' s0;
          s2 = snd (check_environment w s1);
          s3 = snd (deploy_solana w s2);
          s4 = snd (deploy_skale w s3) in
      if \<not> fst (check_environment w s0)
      then Inr (println ''Environment check failed. Please fix issues and try again.'' s2)
      else
        (case (fst (deploy_solana w s0), fst (deploy_skale w s0)) of
           (Some a, Some b) \<Rightarrow>
             report_and_finish w (s4\<lparr>console := console s4 @ snd (sync w a b)\<rparr>)
         | (Some a, None) \<Rightarrow>
             report_and_finish w
               (println ''Only Solana deployment successful. SKALE deployment failed.'' s4)
         | (None, Some b) \<Rightarrow>
             report_and_finish w
               (println ''Only SKALE deployment successful. Solana deployment failed.'' s4)
         | (None, None) \<Rightarrow> Inr (println ''Both deployments failed.'' s4)))"
proof -
  let ?s1 = "println ''Starting Mint Gene Co-Deployer Multi-Chain Deployment'' s0"
  let ?s2 = "snd (check_environment w ?s1)"
  let ?s3 = "snd (deploy_solana w ?s2)"
  have "fst (check_environment w ?s1) = fst (check_environment w s0)"
    by (rule fst_check_environment)
  moreover have "fst (deploy_solana w ?s2) = fst (deploy_solana w s0)"
    by (rule fst_deploy_solana)
  moreover have "fst (deploy_skale w ?s3) = fst (deploy_skale w s0)"
    by (rule fst_deploy_skale)
  ultimately show ?thesis
    by (simp add: run_full_deployment_with_def Let_def case_prod_beta
             cong: option.case_cong)
qed

lemma run_ledger:
  assumes "run_full_deployment_with sync w s0 = Inr s'"
  shows "deployments s' =
           deployments s0 @
           (if fst (check_environment w s0)
            then list_of_option (fst (deploy_solana w s0)) @
                 list_of_option (fst (deploy_skale w s0))
            else [])"
proof -
  let ?s1 = "println ''Starting Mint Gene Co-Deployer Multi-Chain Deployment'' s0"
  let ?s2 = "snd (check_environment w ?s1)"
  let ?s3 = "snd (deploy_solana w ?s2)"
  let ?s4 = "snd (deploy_skale w ?s3)"
  have d2: "deployments ?s2 = deployments s0"
    by (simp add: check_environment_frame println_def)
  have d4: "deployments ?s4 =
              deployments s0 @ list_of_option (fst (deploy_solana w s0)) @
              list_of_option (fst (deploy_skale w s0))"
    using fst_deploy_solana [of w ?s2 s0] fst_deploy_skale [of w ?s3 s0]
    by (simp add: deploy_skale_ledger deploy_solana_ledger d2)
  show ?thesis
  proof (cases "fst (check_environment w s0)")
    case False
    with assms d2 show ?thesis
      by (auto simp: run_full_deployment_with_unfold Let_def println_def)
  next
    case True
    with assms d4 show ?thesis
      by (auto simp: run_full_deployment_with_unfold Let_def println_def
               split: option.splits dest!: report_and_finish_frame)
  qed
qed

section \<open>Facts about the console\<close>

lemma sync_records_append [simp]: "sync_records (xs @ ys) = sync_records xs @ sync_records ys"
  by (induction xs rule: sync_records.induct) simp_all

lemma reports_append [simp]: "reports (xs @ ys) = reports xs @ reports ys"
  by (induction xs rule: reports.induct) simp_all

section \<open>Facts about the report\<close>

lemma float_accepts_fees: "float_accepts ''0.001''" "float_accepts ''0.01''"
  by code_simp+

lemma sum_fees_Inr:
  "sum_fees acc ds = Inr t \<Longrightarrow>
   t = foldl Plus acc (map relayer_fee ds) \<and> (\<forall>d \<in> set ds. float_accepts (relayer_fee d))"
proof (induction ds arbitrary: acc)
  case Nil
  then show ?case by simp
next
  case (Cons d ds)
  from Cons.prems have a: "float_accepts (relayer_fee d)"
    and r: "sum_fees (Plus acc (relayer_fee d)) ds = Inr t"
    by (auto split: if_splits)
  from Cons.IH [OF r] a show ?case by simp
qed

lemma sum_fees_ok:
  "\<forall>d \<in> set ds. float_accepts (relayer_fee d) \<Longrightarrow>
   sum_fees acc ds = Inr (foldl Plus acc (map relayer_fee ds))"
  by (induction ds arbitrary: acc) simp_all

lemma operands_foldl: "operands (foldl Plus acc fees) = operands acc @ fees"
  by (induction fees arbitrary: acc) simp_all

lemma lookup_chains_Inr:
  "lookup_chains cs ds = Inr cfgs \<Longrightarrow>
   map Some cfgs = map (\<lambda>d. map_of cs (chain d)) ds"
proof (induction ds arbitrary: cfgs)
  case Nil
  then show ?case by simp
next
  case (Cons d ds)
  then show ?case
    by (cases "map_of cs (chain d)"; cases "lookup_chains cs ds") auto
qed

lemma lookup_chains_ok:
  "\<forall>d \<in> set ds. map_of cs (chain d) \<noteq> None \<Longrightarrow>
   lookup_chains cs ds = Inr (map (\<lambda>d. the (map_of cs (chain d))) ds)"
  by (induction ds) auto

lemma generate_report_ok:
  assumes "\<forall>d \<in> set (deployments s). float_accepts (relayer_fee d)"
    and "\<forall>d \<in> set (deployments s). map_of (chains s) (chain d) \<noteq> None"
  shows "generate_report w s =
           Inr (s\<lparr>console := console s @
                  [Line ''Deployment Report'', ReportOut (report_of w s)]\<rparr>)"
  using sum_fees_ok [OF assms(1), of Int0] lookup_chains_ok [OF assms(2)]
  by (simp add: generate_report_def total_savings_def report_of_def Let_def)

lemma generate_report_Inr:
  assumes "generate_report w s = Inr s'"
  shows "s' = s\<lparr>console := console s @
                 [Line ''Deployment Report'', ReportOut (report_of w s)]\<rparr>"
proof -
  from assms obtain t cfgs where t: "total_savings (deployments s) = Inr t"
    and c: "lookup_chains (chains s) (deployments s) = Inr cfgs"
    by (auto simp: generate_report_def Let_def split: sum.splits)
  from lookup_chains_Inr [OF c]
  have "map Some cfgs = map (\<lambda>d. map_of (chains s) (chain d)) (deployments s)" .
  then have "map the (map Some cfgs) =
             map the (map (\<lambda>d. map_of (chains s) (chain d)) (deployments s))"
    by simp
  then have c': "cfgs = map (\<lambda>d. the (map_of (chains s) (chain d))) (deployments s)"
    by (simp add: comp_def)
  from assms t c show ?thesis
    unfolding c'
    by (simp add: generate_report_def report_of_def Let_def)
qed

lemma explorer_links_reports [simp]:
  "reports (explorer_links ds) = [] \<and> sync_records (explorer_links ds) = []"
  by (induction ds) simp_all

lemma report_and_finish_ok:
  assumes "\<forall>d \<in> set (deployments s). float_accepts (relayer_fee d)"
    and "\<forall>d \<in> set (deployments s). map_of (chains s) (chain d) \<noteq> None"
  shows "report_and_finish w s =
           Inr (s\<lparr>console := console s @
                  [Line ''Deployment Report'', ReportOut (report_of w s),
                   Line ''Mint Gene Co-Deployer - Multi-Chain Deployment Complete!'',
                   Line ''View deployments on respective explorers:'']
                  @ explorer_links (deployments s)\<rparr>)"
  by (simp add: report_and_finish_def generate_report_ok [OF assms])

text \<open>What the deployers return, when they return a result.\<close>

lemma deploy_solana_Some:
  assumes "fst (deploy_solana w s) = Some d"
  shows "d = \<lparr>chain = ''solana'', contract_address = contract_address d,
              program_id = contract_address d, tx_hash = ''relayer_tx_hash'',
              gas_used = ''0'', relayer_fee = ''0.001'', timestamp = solana_clock w\<rparr>
         \<and> anchor_build w = Built
         \<and> (\<exists>out err. solana_deploy w = Completed 0 out err)"
  using assms
  by (auto simp: deploy_solana_def Let_def split: build.splits proc.splits sum.splits if_splits)

lemma deploy_skale_Some:
  assumes "fst (deploy_skale w s) = Some d"
  shows "d = \<lparr>chain = ''skale'', contract_address = contract_address d,
              program_id = contract_address d, tx_hash = ''relayer_tx_hash'',
              gas_used = ''0'', relayer_fee = ''0.01'', timestamp = skale_clock w\<rparr>
         \<and> (\<exists>out err. skale_deploy w = Completed 0 out err)"
  using assms
  by (auto simp: deploy_skale_def Let_def split: proc.splits sum.splits if_splits)

lemma deploy_solana_fields:
  assumes "fst (deploy_solana w s) = Some d"
  shows "chain d = ''solana''" "relayer_fee d = ''0.001''"
  using deploy_solana_Some [OF assms]
  by (metis DeploymentResult.select_convs(1), metis DeploymentResult.select_convs(6))

lemma deploy_skale_fields:
  assumes "fst (deploy_skale w s) = Some d"
  shows "chain d = ''skale''" "relayer_fee d = ''0.01''"
  using deploy_skale_Some [OF assms]
  by (metis DeploymentResult.select_convs(1), metis DeploymentResult.select_convs(6))

lemma init_frame:
  "deployments (init w) = []"
  "map_of (chains (init w)) ''solana'' =
     Some \<lparr>name = ''Solana'', rpc_url = SOLANA_RPC w, chain_id = 101,
           native_token = ''SOL'', relayer_type = ''octane''\<rparr>"
  "map_of (chains (init w)) ''skale'' =
     Some \<lparr>name = ''SKALE'', rpc_url = SKALE_RPC w, chain_id = SKALE_CHAIN_ID w,
           native_token = ''sFUEL'', relayer_type = ''biconomy''\<rparr>"
  by (simp_all add: init_def Let_def println_def)

lemma generate_report_chains_known:
  assumes "generate_report w s = Inr s'"
  shows "\<forall>d \<in> set (deployments s). map_of (chains s) (chain d) \<noteq> None"
proof -
  from assms obtain cfgs where "lookup_chains (chains s) (deployments s) = Inr cfgs"
    by (auto simp: generate_report_def Let_def split: sum.splits)
  from lookup_chains_Inr [OF this]
  have "map Some cfgs = map (\<lambda>d. map_of (chains s) (chain d)) (deployments s)" .
  then have "set (map (\<lambda>d. map_of (chains s) (chain d)) (deployments s)) = set (map Some cfgs)"
    by simp
  then show ?thesis by auto
qed

lemma generate_report_total:
  assumes "generate_report w s = Inr s'"
  shows "\<exists>t. total_savings (deployments s) = Inr t"
  using assms by (auto simp: generate_report_def Let_def split: sum.splits)

section \<open>Facts about the run\<close>

lemma println_frame [simp]:
  "deployments (println m s) = deployments s" "chains (println m s) = chains s"
  "reports (console (println m s)) = reports (console s)"
  "sync_records (console (println m s)) = sync_records (console s)"
  by (simp_all add: println_def)

lemma check_environment_console:
  "reports (console (snd (check_environment w s))) = reports (console s)
   \<and> sync_records (console (snd (check_environment w s))) = sync_records (console s)"
  by (simp add: check_environment_def Let_def split: probe.splits)

lemma deploy_solana_console:
  "reports (console (snd (deploy_solana w s))) = reports (console s)
   \<and> sync_records (console (snd (deploy_solana w s))) = sync_records (console s)"
  by (simp add: deploy_solana_def Let_def println_def
           split: build.splits proc.splits sum.splits)

lemma deploy_skale_console:
  "reports (console (snd (deploy_skale w s))) = reports (console s)
   \<and> sync_records (console (snd (deploy_skale w s))) = sync_records (console s)"
  by (simp add: deploy_skale_def Let_def println_def split: proc.splits sum.splits)

lemma deployed_frame:
  "deployments (deployed w s0) =
     deployments s0 @ list_of_option (fst (deploy_solana w s0)) @
     list_of_option (fst (deploy_skale w s0))"
  "chains (deployed w s0) = chains s0"
  "reports (console (deployed w s0)) = reports (console s0)"
  "sync_records (console (deployed w s0)) = sync_records (console s0)"
proof -
  let ?s1 = "println ''Starting Mint Gene Co-Deployer Multi-Chain Deployment'' s0"
  let ?s2 = "snd (check_environment w ?s1)"
  let ?s3 = "snd (deploy_solana w ?s2)"
  show "deployments (deployed w s0) =
     deployments s0 @ list_of_option (fst (deploy_solana w s0)) @
     list_of_option (fst (deploy_skale w s0))"
    using fst_deploy_solana [of w ?s2 s0] fst_deploy_skale [of w ?s3 s0]
    by (simp add: deployed_def deploy_skale_ledger deploy_solana_ledger
          check_environment_frame)
  show "chains (deployed w s0) = chains s0"
    by (simp add: deployed_def deploy_chains check_environment_frame)
  show "reports (console (deployed w s0)) = reports (console s0)"
    by (simp add: deployed_def deploy_skale_console deploy_solana_console
          check_environment_console)
  show "sync_records (console (deployed w s0)) = sync_records (console s0)"
    by (simp add: deployed_def deploy_skale_console deploy_solana_console
          check_environment_console)
qed

text \<open>Started from a fresh deployer, the ledger after the deploy calls can be reported.\<close>

lemma deployed_reportable:
  assumes "deployments s0 = []" and "chains s0 = chains (init w')"
    and "deployments s = deployments (deployed w s0)" and "chains s = chains s0"
  shows "\<forall>d \<in> set (deployments s). float_accepts (relayer_fee d)"
    and "\<forall>d \<in> set (deployments s). map_of (chains s) (chain d) \<noteq> None"
proof -
  have *: "float_accepts (relayer_fee d) \<and> map_of (chains s) (chain d) \<noteq> None"
    if "d \<in> set (deployments s)" for d
  proof -
    from that assms(1,3)
    consider "fst (deploy_solana w s0) = Some d" | "fst (deploy_skale w s0) = Some d"
      by (cases "fst (deploy_solana w s0)"; cases "fst (deploy_skale w s0)")
         (auto simp: deployed_frame(1))
    then show ?thesis
    proof cases
      case 1
      from deploy_solana_fields [OF 1] assms(2,4) show ?thesis
        by (simp add: float_accepts_fees init_frame)
    next
      case 2
      from deploy_skale_fields [OF 2] assms(2,4) show ?thesis
        by (simp add: float_accepts_fees init_frame)
    qed
  qed
  from * show "\<forall>d \<in> set (deployments s). float_accepts (relayer_fee d)" by blast
  from * show "\<forall>d \<in> set (deployments s). map_of (chains s) (chain d) \<noteq> None" by blast
qed

text \<open>The end of a run from a fresh deployer, by the outcome of the check and of the two
  deploy calls.\<close>

lemma finished_frame:
  "deployments (finished w s) = deployments s"
  "chains (finished w s) = chains s"
  "reports (console (finished w s)) = reports (console s) @ [report_of w s]"
  "sync_records (console (finished w s)) = sync_records (console s)"
  by (simp_all add: finished_def)

lemma run_both:
  assumes "deployments s0 = []" and "chains s0 = chains (init w')"
    and "fst (check_environment w s0)"
    and "fst (deploy_solana w s0) = Some a" and "fst (deploy_skale w s0) = Some b"
  shows "run_full_deployment_with sync w s0 =
           Inr (finished w
                 ((deployed w s0)\<lparr>console := console (deployed w s0) @ snd (sync w a b)\<rparr>))"
proof -
  let ?s = "(deployed w s0)\<lparr>console := console (deployed w s0) @ snd (sync w a b)\<rparr>"
  have "report_and_finish w ?s = Inr (finished w ?s)"
    unfolding finished_def
    by (rule report_and_finish_ok; rule deployed_reportable [OF assms(1,2)])
       (simp_all add: deployed_frame)
  with assms(3,4,5) show ?thesis
    by (simp add: run_full_deployment_with_unfold Let_def deployed_def)
qed

lemma run_solana_only:
  assumes "deployments s0 = []" and "chains s0 = chains (init w')"
    and "fst (check_environment w s0)"
    and "fst (deploy_solana w s0) = Some a" and "fst (deploy_skale w s0) = None"
  shows "run_full_deployment_with sync w s0 =
           Inr (finished w
                 (println ''Only Solana deployment successful. SKALE deployment failed.''
                    (deployed w s0)))"
proof -
  let ?s = "println ''Only Solana deployment successful. SKALE deployment failed.''
              (deployed w s0)"
  have "report_and_finish w ?s = Inr (finished w ?s)"
    unfolding finished_def
    by (rule report_and_finish_ok; rule deployed_reportable [OF assms(1,2)])
       (simp_all add: deployed_frame)
  with assms(3,4,5) show ?thesis
    by (simp add: run_full_deployment_with_unfold Let_def deployed_def)
qed

lemma run_skale_only:
  assumes "deployments s0 = []" and "chains s0 = chains (init w')"
    and "fst (check_environment w s0)"
    and "fst (deploy_solana w s0) = None" and "fst (deploy_skale w s0) = Some b"
  shows "run_full_deployment_with sync w s0 =
           Inr (finished w
                 (println ''Only SKALE deployment successful. Solana deployment failed.''
                    (deployed w s0)))"
proof -
  let ?s = "println ''Only SKALE deployment successful. Solana deployment failed.''
              (deployed w s0)"
  have "report_and_finish w ?s = Inr (finished w ?s)"
    unfolding finished_def
    by (rule report_and_finish_ok; rule deployed_reportable [OF assms(1,2)])
       (simp_all add: deployed_frame)
  with assms(3,4,5) show ?thesis
    by (simp add: run_full_deployment_with_unfold Let_def deployed_def)
qed

lemma run_none:
  assumes "fst (check_environment w s0)"
    and "fst (deploy_solana w s0) = None" and "fst (deploy_skale w s0) = None"
  shows "run_full_deployment_with sync w s0 =
           Inr (println ''Both deployments failed.'' (deployed w s0))"
  using assms by (simp add: run_full_deployment_with_unfold Let_def deployed_def)

lemma run_check_failed:
  assumes "\<not> fst (check_environment w s0)"
  shows "run_full_deployment_with sync w s0 =
           Inr (println ''Environment check failed. Please fix issues and try again.''
                 (snd (check_environment w
                        (println ''Starting Mint Gene Co-Deployer Multi-Chain Deployment''
                           s0))))"
  using assms by (simp add: run_full_deployment_with_unfold Let_def)

text \<open>The two worlds the examples run in, evaluated once.\<close>

lemma world_ok_outcomes:
  "fst (check_environment world_ok s)"
  "fst (deploy_solana world_ok s) = Some solana_ABC123"
  "fst (deploy_skale world_ok s) = Some skale_0xdef"
proof -
  show "fst (check_environment world_ok s)"
    by (simp add: check_environment_def world_ok_def Let_def)
  have "fst (deploy_solana world_ok (init world_ok)) = Some solana_ABC123"
    by code_simp
  then show "fst (deploy_solana world_ok s) = Some solana_ABC123"
    using fst_deploy_solana [of world_ok s "init world_ok"] by simp
  have "fst (deploy_skale world_ok (init world_ok)) = Some skale_0xdef"
    by code_simp
  then show "fst (deploy_skale world_ok s) = Some skale_0xdef"
    using fst_deploy_skale [of world_ok s "init world_ok"] by simp
qed

lemma world_skale_failed_outcomes:
  "fst (check_environment world_skale_failed s)"
  "fst (deploy_solana world_skale_failed s) = Some solana_ABC123"
  "fst (deploy_skale world_skale_failed s) = None"
proof -
  show "fst (check_environment world_skale_failed s)"
    by (simp add: check_environment_def world_skale_failed_def world_ok_def Let_def)
  have "fst (deploy_solana world_skale_failed (init world_ok)) = Some solana_ABC123"
    by code_simp
  then show "fst (deploy_solana world_skale_failed s) = Some solana_ABC123"
    using fst_deploy_solana [of world_skale_failed s "init world_ok"] by simp
  show "fst (deploy_skale world_skale_failed s) = None"
    by (simp add: deploy_skale_def world_skale_failed_def Let_def)
qed

lemma world_failed_outcomes:
  "fst (check_environment world_failed s)"
  "fst (deploy_solana world_failed s) = None"
  "fst (deploy_skale world_failed s) = None"
  by (simp_all add: check_environment_def deploy_solana_def deploy_skale_def
        world_failed_def world_ok_def Let_def)

lemma init_console:
  "reports (console (init w)) = []" "sync_records (console (init w)) = []"
  by (simp_all add: init_def Let_def println_def)

lemma zip3_map:
  assumes "length xs = length ds" and "length cs = length ds"
  shows "map (\<lambda>x. f (fst (snd x))) (zip xs (zip ds cs)) = map f ds"
proof -
  have "map (\<lambda>x. f (fst (snd x))) (zip xs (zip ds cs)) =
        map f (map fst (map snd (zip xs (zip ds cs))))"
    by (simp add: comp_def)
  also have "map snd (zip xs (zip ds cs)) = zip ds cs"
    using assms by (simp add: map_snd_zip)
  also have "map fst (zip ds cs) = ds"
    using assms by (simp add: map_fst_zip)
  finally show ?thesis .
qed

lemma report_of_fields:
  "total_deployments (report_of w s) = length (deployments s)"
  "cross_chain_status (report_of w s) =
     (if length (deployments s) \<ge> 2 then ''Synchronized''
      else ''Single chain deployment only'')"
  "savings_line (report_of w s) = ''.2f''"
  "map detail_shown (details (report_of w s)) = map result_shown (deployments s)"
  "length (details (report_of w s)) = length (deployments s)"
proof -
  have l: "length [1 ..< Suc (length (deployments s))] = length (deployments s)"
    by (simp only: length_upt diff_Suc_1)
  have "map detail_shown (details (report_of w s)) =
        map (\<lambda>x. result_shown (fst (snd x)))
          (zip [1 ..< Suc (length (deployments s))]
             (zip (deployments s)
                (map (\<lambda>d. the (map_of (chains s) (chain d))) (deployments s))))"
    by (simp add: report_of_def detail_shown_def result_shown_def detail_of_def
          case_prod_beta comp_def)
  also have "\<dots> = map result_shown (deployments s)"
    by (rule zip3_map [OF l]) simp
  finally show m:
    "map detail_shown (details (report_of w s)) = map result_shown (deployments s)" .
  show "total_deployments (report_of w s) = length (deployments s)"
    by (simp add: report_of_def)
  show "cross_chain_status (report_of w s) =
     (if length (deployments s) \<ge> 2 then ''Synchronized''
      else ''Single chain deployment only'')"
    by (simp add: report_of_def)
  show "savings_line (report_of w s) = ''.2f''"
    by (simp add: report_of_def)
  from arg_cong [OF m, of length]
  show "length (details (report_of w s)) = length (deployments s)"
    by simp
qed

lemma sync_cross_chain_printed:
  "reports (snd (sync_cross_chain w a b)) = []"
  "map source_address (sync_records (snd (sync_cross_chain w a b))) = [contract_address a]"
  "map target_address (sync_records (snd (sync_cross_chain w a b))) = [contract_address b]"
  by (simp_all add: sync_cross_chain_def)

lemma run_returns:
  assumes "deployments s0 = []" and "chains s0 = chains (init w')"
  shows "\<exists>s. run_full_deployment_with sync w s0 = Inr s"
proof (cases "fst (check_environment w s0)")
  case False
  then show ?thesis by (simp add: run_check_failed)
next
  case True
  show ?thesis
  proof (cases "fst (deploy_solana w s0)")
    case None
    note a = this
    show ?thesis
    proof (cases "fst (deploy_skale w s0)")
      case None
      with True a show ?thesis by (simp add: run_none)
    next
      case (Some b)
      with True a assms show ?thesis by (simp add: run_skale_only)
    qed
  next
    case (Some x)
    note a = this
    show ?thesis
    proof (cases "fst (deploy_skale w s0)")
      case None
      with True a assms show ?thesis by (simp add: run_solana_only)
    next
      case (Some b)
      with True a assms show ?thesis by (simp add: run_both)
    qed
  qed
qed

lemma run_states_ledgers:
  "map deployments (run_states w (init w)) =
     (if fst (check_environment w (init w))
      then [[], [], [],
            list_of_option (fst (deploy_solana w (init w))),
            list_of_option (fst (deploy_solana w (init w))) @
              list_of_option (fst (deploy_skale w (init w))),
            list_of_option (fst (deploy_solana w (init w))) @
              list_of_option (fst (deploy_skale w (init w)))]
      else [[], [], [], []])"
  "main w = Inr (last (run_states w (init w)))"
proof -
  let ?s1 = "println ''Starting Mint Gene Co-Deployer Multi-Chain Deployment'' (init w)"
  let ?s2 = "snd (check_environment w ?s1)"
  let ?s3 = "snd (deploy_solana w ?s2)"
  let ?s4 = "snd (deploy_skale w ?s3)"
  from run_returns [OF init_frame(1) refl, of sync_cross_chain w]
  obtain sf where sf: "run_full_deployment w (init w) = Inr sf"
    by (auto simp: run_full_deployment_def)
  from run_ledger [OF sf [unfolded run_full_deployment_def]]
  have df: "deployments sf =
              (if fst (check_environment w (init w))
               then list_of_option (fst (deploy_solana w (init w))) @
                    list_of_option (fst (deploy_skale w (init w)))
               else [])"
    by (simp add: init_frame)
  have c: "fst (check_environment w ?s1) = fst (check_environment w (init w))"
    by (rule fst_check_environment)
  have d2: "deployments ?s2 = []"
    by (simp add: check_environment_frame init_frame)
  have d3: "deployments ?s3 = list_of_option (fst (deploy_solana w (init w)))"
    using fst_deploy_solana [of w ?s2 "init w"] by (simp add: deploy_solana_ledger d2)
  have d4: "deployments ?s4 =
              list_of_option (fst (deploy_solana w (init w))) @
              list_of_option (fst (deploy_skale w (init w)))"
    using fst_deploy_skale [of w ?s3 "init w"] by (simp add: deploy_skale_ledger d3)
  show "map deployments (run_states w (init w)) =
     (if fst (check_environment w (init w))
      then [[], [], [],
            list_of_option (fst (deploy_solana w (init w))),
            list_of_option (fst (deploy_solana w (init w))) @
              list_of_option (fst (deploy_skale w (init w))),
            list_of_option (fst (deploy_solana w (init w))) @
              list_of_option (fst (deploy_skale w (init w)))]
      else [[], [], [], []])"
    by (simp add: run_states_def Let_def sf c d2 d3 d4 df init_frame)
  show "main w = Inr (last (run_states w (init w)))"
    by (simp add: run_states_def Let_def sf main_def)
qed

section \<open>The bridge step\<close>

text \<open>
  C10. For every pair of deployment results (and every reading of the clock),
  \<open>sync_cross_chain\<close> returns \<open>True\<close>: the implemented bridge step has no failing
  outcome.
\<close>

theorem sync_cross_chain_returns_True:
  "fst (sync_cross_chain w solana_deployment skale_deployment) = True"
  by (simp add: sync_cross_chain_def)

text \<open>
  C7. Two invocations of \<open>sync_cross_chain\<close> on the same pair of results, at whatever
  times \<open>w\<close> and \<open>w'\<close> they happen, print sync records with the same shared state, and
  that state is the fixed baseline: level 1, pool 0, and the two contract addresses as
  the allowlist.
\<close>

theorem sync_cross_chain_idempotent:
  "map sacred_state (sync_records (snd (sync_cross_chain w a b))) =
     map sacred_state (sync_records (snd (sync_cross_chain w' a b)))
   \<and> map sacred_state (sync_records (snd (sync_cross_chain w a b))) =
     [\<lparr>matrix_level = 1, earnings_pool = 0,
       allowlist = [contract_address a, contract_address b]\<rparr>]"
  by (simp add: sync_cross_chain_def)

section \<open>The environment check\<close>

text \<open>
  C3, as amended. \<open>check_environment\<close> passes exactly when Node.js is found, Python3 is
  found and the private key is not the placeholder; a missing Anchor CLI or Hardhat is
  only printed and changes nothing in the outcome. When the check fails, the run ends
  after one more message: no deployer is called and the ledger is as it was.
\<close>

theorem check_environment_passes_iff:
  "fst (check_environment w s) =
     (node_version w \<noteq> NotFound \<and> python3_version w \<noteq> NotFound
      \<and> PRIVATE_KEY w \<noteq> ''your_private_key_here'')
   \<and> (fst (check_environment w s) \<and> anchor_version w = NotFound \<longrightarrow>
        Line ''Anchor CLI not found - install with: npm i -g @project-serum/anchor-cli''
          \<in> set (console (snd (check_environment w s))))
   \<and> (fst (check_environment w s) \<and> hardhat_version w = NotFound \<longrightarrow>
        Line ''Hardhat not found - install with: npm install -g hardhat''
          \<in> set (console (snd (check_environment w s))))
   \<and> (\<not> fst (check_environment w s) \<longrightarrow>
        run_full_deployment w s =
          Inr (println ''Environment check failed. Please fix issues and try again.''
                (snd (check_environment w
                       (println ''Starting Mint Gene Co-Deployer Multi-Chain Deployment'' s)))))"
proof -
  have a: "fst (check_environment w s) =
     (node_version w \<noteq> NotFound \<and> python3_version w \<noteq> NotFound
      \<and> PRIVATE_KEY w \<noteq> ''your_private_key_here'')"
    by (simp add: check_environment_def Let_def split: probe.splits)
  have b: "fst (check_environment w s) \<and> anchor_version w = NotFound \<longrightarrow>
        Line ''Anchor CLI not found - install with: npm i -g @project-serum/anchor-cli''
          \<in> set (console (snd (check_environment w s)))"
    by (simp add: check_environment_def Let_def println_def split: probe.splits)
  have c: "fst (check_environment w s) \<and> hardhat_version w = NotFound \<longrightarrow>
        Line ''Hardhat not found - install with: npm install -g hardhat''
          \<in> set (console (snd (check_environment w s)))"
    by (simp add: check_environment_def Let_def println_def split: probe.splits)
  have d: "\<not> fst (check_environment w s) \<longrightarrow>
        run_full_deployment w s =
          Inr (println ''Environment check failed. Please fix issues and try again.''
                (snd (check_environment w
                       (println ''Starting Mint Gene Co-Deployer Multi-Chain Deployment'' s))))"
    by (simp add: run_full_deployment_def run_full_deployment_with_unfold Let_def)
  from a b c d show ?thesis by blast
qed

theorem check_environment_passes_iff_witness:
  "fst (check_environment world_no_tools (init world_no_tools))
   \<and> anchor_version world_no_tools = NotFound
   \<and> hardhat_version world_no_tools = NotFound
   \<and> Line ''Anchor CLI not found - install with: npm i -g @project-serum/anchor-cli''
        \<in> set (console (snd (check_environment world_no_tools (init world_no_tools))))
   \<and> Line ''Hardhat not found - install with: npm install -g hardhat''
        \<in> set (console (snd (check_environment world_no_tools (init world_no_tools))))
   \<and> \<not> fst (check_environment world_no_node (init world_no_node))
   \<and> run_full_deployment world_no_node (init world_no_node) =
        Inr (println ''Environment check failed. Please fix issues and try again.''
              (snd (check_environment world_no_node
                     (println ''Starting Mint Gene Co-Deployer Multi-Chain Deployment''
                        (init world_no_node)))))"
proof -
  have t: "node_version world_no_tools \<noteq> NotFound \<and> python3_version world_no_tools \<noteq> NotFound
           \<and> PRIVATE_KEY world_no_tools \<noteq> ''your_private_key_here''
           \<and> anchor_version world_no_tools = NotFound
           \<and> hardhat_version world_no_tools = NotFound"
    by (simp add: world_no_tools_def world_ok_def)
  have n: "node_version world_no_node = NotFound"
    by (simp add: world_no_node_def)
  from t n
    check_environment_passes_iff [of world_no_tools "init world_no_tools"]
    check_environment_passes_iff [of world_no_node "init world_no_node"]
  show ?thesis by simp
qed

text \<open>
  The claim as stated fails: with the key configured, a missing Node.js alone makes the
  check fail.
\<close>

theorem check_environment_node_counterexample:
  "PRIVATE_KEY world_no_node \<noteq> ''your_private_key_here''
   \<and> node_version world_no_node = NotFound
   \<and> fst (check_environment world_no_node (init world_no_node)) = False"
  by (simp add: check_environment_def world_no_node_def world_ok_def Let_def)

section \<open>The chain deployers\<close>

text \<open>
  C8, as amended. When the Anchor build has succeeded, the Solana deploy script exits with status 0
  and the first line of its standard output that contains \<open>Program ID:\<close> reads
  \<open>pre Program ID: rest\<close> (with no further marker in \<open>pre\<close> or \<open>rest\<close>), and the value,
  \<open>rest\<close> without the blanks around it, is not empty, \<open>deploy_solana\<close> returns a
  \<open>DeploymentResult\<close> for chain \<open>solana\<close> whose contract address and program id are
  that value and whose gas used is \<open>0\<close>.
\<close>

theorem deploy_solana_success:
  assumes "anchor_build w = Built"
    and "solana_deploy w = Completed 0 out err"
    and "split_py newline out = before @ (pre @ ''Program ID:'' @ rest) # after"
    and "\<forall>l \<in> set before. \<not> contains ''Program ID:'' l"
    and "\<not> contains ''Program ID:'' pre"
    and "\<not> contains ''Program ID:'' rest"
    and "strip rest \<noteq> []"
  shows "fst (deploy_solana w s) =
           Some \<lparr>chain = ''solana'', contract_address = strip rest, program_id = strip rest,
                 tx_hash = ''relayer_tx_hash'', gas_used = ''0'', relayer_fee = ''0.001'',
                 timestamp = solana_clock w\<rparr>"
proof -
  have "find_marker ''Program ID:'' (split_py newline out) = Inr (Some (strip rest))"
    unfolding assms(3) using assms(4,5,6) by (intro find_marker_first) simp_all
  with assms(1,2,7) show ?thesis
    by (simp add: deploy_solana_def Let_def)
qed

theorem deploy_solana_success_witness:
  "fst (deploy_solana world_ok (init world_ok)) =
     Some \<lparr>chain = ''solana'', contract_address = ''ABC123'', program_id = ''ABC123'',
           tx_hash = ''relayer_tx_hash'', gas_used = ''0'', relayer_fee = ''0.001'',
           timestamp = 100\<rparr>"
proof -
  have b: "anchor_build world_ok = Built"
    by (simp add: world_ok_def)
  have r: "solana_deploy world_ok =
             Completed 0 (''Deploying...'' @ newline @ ''Program ID: ABC123'' @ newline) []"
    by (simp add: world_ok_def)
  have l: "split_py newline (''Deploying...'' @ newline @ ''Program ID: ABC123'' @ newline) =
             [''Deploying...''] @ ([] @ ''Program ID:'' @ '' ABC123'') # [[]]"
    by code_simp
  have n1: "\<forall>l \<in> set [''Deploying...'']. \<not> contains ''Program ID:'' l"
    by code_simp
  have n2: "\<not> contains ''Program ID:'' []"
    by code_simp
  have n3: "\<not> contains ''Program ID:'' '' ABC123''"
    by code_simp
  have v: "strip '' ABC123'' = ''ABC123''"
    by code_simp
  have c: "solana_clock world_ok = 100"
    by (simp add: world_ok_def)
  from deploy_solana_success [OF b r l n1 n2 n3, of "init world_ok"] v c
  show ?thesis by simp
qed

text \<open>
  The claim as stated fails: it is the first line with the marker that decides. In
  \<open>world_blank_marker\<close> the script exits with status 0 and its output holds the line
  \<open>Program ID: XYZ\<close>, but an earlier marker line has no value, and \<open>deploy_solana\<close>
  returns \<open>None\<close>; in \<open>world_two_markers\<close> the output holds the line \<open>Program ID: BBB\<close>
  and the result carries the value \<open>AAA\<close> of the earlier marker line.
\<close>

theorem deploy_solana_first_marker_counterexample:
  "anchor_build world_blank_marker = Built
   \<and> solana_deploy world_blank_marker =
       Completed 0 (''Program ID: '' @ newline @ ''Program ID: XYZ'') []
   \<and> split_py newline (''Program ID: '' @ newline @ ''Program ID: XYZ'') =
       [''Program ID: '', ''Program ID: XYZ'']
   \<and> fst (deploy_solana world_blank_marker (init world_blank_marker)) = None
   \<and> anchor_build world_two_markers = Built
   \<and> solana_deploy world_two_markers =
       Completed 0 (''Program ID: AAA'' @ newline @ ''Program ID: BBB'') []
   \<and> split_py newline (''Program ID: AAA'' @ newline @ ''Program ID: BBB'') =
       [''Program ID: AAA'', ''Program ID: BBB'']
   \<and> map_option contract_address
       (fst (deploy_solana world_two_markers (init world_two_markers))) = Some ''AAA''"
proof -
  have w1: "anchor_build world_blank_marker = Built"
    "solana_deploy world_blank_marker =
       Completed 0 (''Program ID: '' @ newline @ ''Program ID: XYZ'') []"
    by (simp_all add: world_blank_marker_def world_ok_def)
  have w2: "anchor_build world_two_markers = Built"
    "solana_deploy world_two_markers =
       Completed 0 (''Program ID: AAA'' @ newline @ ''Program ID: BBB'') []"
    by (simp_all add: world_two_markers_def world_ok_def)
  have l1: "split_py newline (''Program ID: '' @ newline @ ''Program ID: XYZ'') =
             [''Program ID: '', ''Program ID: XYZ'']"
    by code_simp
  have l2: "split_py newline (''Program ID: AAA'' @ newline @ ''Program ID: BBB'') =
             [''Program ID: AAA'', ''Program ID: BBB'']"
    by code_simp
  have m1: "find_marker ''Program ID:'' [''Program ID: '', ''Program ID: XYZ''] = Inr (Some [])"
    by code_simp
  have m2: "find_marker ''Program ID:'' [''Program ID: AAA'', ''Program ID: BBB''] =
             Inr (Some ''AAA'')"
    by code_simp
  have r1: "fst (deploy_solana world_blank_marker (init world_blank_marker)) = None"
    unfolding deploy_solana_def Let_def w1 build.case proc.case l1 m1 by simp
  have r2: "map_option contract_address
       (fst (deploy_solana world_two_markers (init world_two_markers))) = Some ''AAA''"
    unfolding deploy_solana_def Let_def w2 build.case proc.case l2 m2 by simp
  from w1 w2 l1 l2 r1 r2 show ?thesis by blast
qed

text \<open>
  C4, as amended. A deploy script that exits with status 0 and prints no line with its marker, and
  one that exits with a non-zero status, both make the deployer return \<open>None\<close> and leave
  the ledger as it was; the two cases end with different messages on the console
  (\<open>Could not extract ...\<close> against \<open>... deployment failed: stderr\<close>), whatever the
  standard error holds. The value returned is the same in both cases: the deployers have
  no error value.
\<close>

theorem deploy_unparseable_not_failure:
  assumes "anchor_build w = Built" and "anchor_build w' = Built"
    and "solana_deploy w = Completed 0 out1 err1"
    and "\<forall>l \<in> set (split_py newline out1). \<not> contains ''Program ID:'' l"
    and "skale_deploy w = Completed 0 out2 err2"
    and "\<forall>l \<in> set (split_py newline out2). \<not> contains ''Contract Address:'' l"
    and "solana_deploy w' = Completed rc1 out1' err1'" and "rc1 \<noteq> 0"
    and "skale_deploy w' = Completed rc2 out2' err2'" and "rc2 \<noteq> 0"
  shows "fst (deploy_solana w s) = None \<and> fst (deploy_solana w' s) = None
       \<and> fst (deploy_skale w s) = None \<and> fst (deploy_skale w' s) = None
       \<and> deployments (snd (deploy_solana w s)) = deployments s
       \<and> deployments (snd (deploy_solana w' s)) = deployments s
       \<and> deployments (snd (deploy_skale w s)) = deployments s
       \<and> deployments (snd (deploy_skale w' s)) = deployments s
       \<and> last (console (snd (deploy_solana w s))) =
           Line ''Could not extract program ID from deployment output''
       \<and> last (console (snd (deploy_solana w' s))) =
           Line (''Solana deployment failed: '' @ err1')
       \<and> last (console (snd (deploy_skale w s))) =
           Line ''Could not extract contract address from deployment output''
       \<and> last (console (snd (deploy_skale w' s))) =
           Line (''SKALE deployment failed: '' @ err2')
       \<and> last (console (snd (deploy_solana w s))) \<noteq> last (console (snd (deploy_solana w' s)))
       \<and> last (console (snd (deploy_skale w s))) \<noteq> last (console (snd (deploy_skale w' s)))"
proof -
  have m1: "find_marker ''Program ID:'' (split_py newline out1) = Inr None"
    using assms(4) by (rule find_marker_none)
  have m2: "find_marker ''Contract Address:'' (split_py newline out2) = Inr None"
    using assms(6) by (rule find_marker_none)
  have s1: "deploy_solana w s =
              (None, println ''Could not extract program ID from deployment output''
                       (println ''Running zero-cost deployment...''
                         (println ''Building Anchor program...''
                           (println ''Deploying to Solana...'' s))))"
    using assms(1,3) m1 by (simp add: deploy_solana_def Let_def)
  have s2: "deploy_solana w' s =
              (None, println (''Solana deployment failed: '' @ err1')
                       (println ''Running zero-cost deployment...''
                         (println ''Building Anchor program...''
                           (println ''Deploying to Solana...'' s))))"
    using assms(2,7,8) by (simp add: deploy_solana_def Let_def)
  have k1: "deploy_skale w s =
              (None, println ''Could not extract contract address from deployment output''
                       (println ''Running zero-cost deployment...''
                         (println ''Deploying to SKALE...'' s)))"
    using assms(5) m2 by (simp add: deploy_skale_def Let_def)
  have k2: "deploy_skale w' s =
              (None, println (''SKALE deployment failed: '' @ err2')
                       (println ''Running zero-cost deployment...''
                         (println ''Deploying to SKALE...'' s)))"
    using assms(9,10) by (simp add: deploy_skale_def Let_def)
  show ?thesis
    unfolding s1 s2 k1 k2 by (simp add: println_def)
qed

theorem deploy_unparseable_not_failure_witness:
  "fst (deploy_skale world_unparseable (init world_ok)) = None
   \<and> fst (deploy_skale world_failed (init world_ok)) = None
   \<and> last (console (snd (deploy_skale world_unparseable (init world_ok)))) =
       Line ''Could not extract contract address from deployment output''
   \<and> last (console (snd (deploy_skale world_failed (init world_ok)))) =
       Line ''SKALE deployment failed: rpc unreachable''
   \<and> last (console (snd (deploy_solana world_unparseable (init world_ok)))) =
       Line ''Could not extract program ID from deployment output''
   \<and> last (console (snd (deploy_solana world_failed (init world_ok)))) =
       Line ''Solana deployment failed: insufficient funds''
   \<and> deployments (snd (deploy_skale world_unparseable (init world_ok))) = []
   \<and> deployments (snd (deploy_solana world_failed (init world_ok))) = []"
proof -
  have b: "anchor_build world_unparseable = Built" "anchor_build world_failed = Built"
    by (simp_all add: world_unparseable_def world_failed_def world_ok_def)
  have u1: "solana_deploy world_unparseable =
              Completed 0 (''Deploying...'' @ newline @ ''done'') []"
    by (simp add: world_unparseable_def)
  have u2: "skale_deploy world_unparseable = Completed 0 ''Deployed'' []"
    by (simp add: world_unparseable_def)
  have n1: "\<forall>l \<in> set (split_py newline (''Deploying...'' @ newline @ ''done'')).
              \<not> contains ''Program ID:'' l"
    by code_simp
  have n2: "\<forall>l \<in> set (split_py newline ''Deployed''). \<not> contains ''Contract Address:'' l"
    by code_simp
  have f1: "solana_deploy world_failed = Completed 1 [] ''insufficient funds''"
    by (simp add: world_failed_def)
  have f2: "skale_deploy world_failed = Completed 2 [] ''rpc unreachable''"
    by (simp add: world_failed_def)
  have z: "(1::int) \<noteq> 0" "(2::int) \<noteq> 0"
    by simp_all
  have d: "deployments (init world_ok) = []"
    by (simp add: init_def println_def)
  from deploy_unparseable_not_failure
         [OF b u1 n1 u2 n2 f1 z(1) f2 z(2), of "init world_ok"] d
  show ?thesis by simp
qed

text \<open>
  The claim as stated fails: no error is returned that could tell the two cases apart.
  For a script that exits with status 0 without a marker line and for one that exits
  with a non-zero status, each deployer returns the same value.
\<close>

theorem deploy_errors_same_value_counterexample:
  "skale_deploy world_unparseable = Completed 0 ''Deployed'' []
   \<and> skale_deploy world_failed = Completed 2 [] ''rpc unreachable''
   \<and> fst (deploy_skale world_unparseable (init world_ok)) =
       fst (deploy_skale world_failed (init world_ok))
   \<and> solana_deploy world_unparseable =
       Completed 0 (''Deploying...'' @ newline @ ''done'') []
   \<and> solana_deploy world_failed = Completed 1 [] ''insufficient funds''
   \<and> fst (deploy_solana world_unparseable (init world_ok)) =
       fst (deploy_solana world_failed (init world_ok))"
proof -
  have u: "skale_deploy world_unparseable = Completed 0 ''Deployed'' []"
    "solana_deploy world_unparseable =
       Completed 0 (''Deploying...'' @ newline @ ''done'') []"
    "anchor_build world_unparseable = Built"
    by (simp_all add: world_unparseable_def world_ok_def)
  have f: "skale_deploy world_failed = Completed 2 [] ''rpc unreachable''"
    "solana_deploy world_failed = Completed 1 [] ''insufficient funds''"
    "anchor_build world_failed = Built"
    by (simp_all add: world_failed_def world_ok_def)
  have m1: "find_marker ''Contract Address:'' (split_py newline ''Deployed'') = Inr None"
    by code_simp
  have m2: "find_marker ''Program ID:''
              (split_py newline (''Deploying...'' @ newline @ ''done'')) = Inr None"
    by code_simp
  have k: "fst (deploy_skale world_unparseable (init world_ok)) = None"
    "fst (deploy_skale world_failed (init world_ok)) = None"
    unfolding deploy_skale_def Let_def u f proc.case m1 by simp_all
  have s: "fst (deploy_solana world_unparseable (init world_ok)) = None"
    "fst (deploy_solana world_failed (init world_ok)) = None"
    unfolding deploy_solana_def Let_def u f build.case proc.case m2 by simp_all
  from u f k s show ?thesis by simp
qed

text \<open>
  C5, as amended. A deployer appends the result it returns to the ledger itself, and
  appends nothing when it returns \<open>None\<close>; the orchestrator appends nothing of its own:
  after a run the ledger holds what it held before, followed by the results the two
  deployers returned.
\<close>

theorem deployer_appends_own_result:
  "deployments (snd (deploy_solana w s)) =
     deployments s @ list_of_option (fst (deploy_solana w s))
   \<and> deployments (snd (deploy_skale w s)) =
     deployments s @ list_of_option (fst (deploy_skale w s))
   \<and> (run_full_deployment w s = Inr s' \<longrightarrow>
        deployments s' =
          deployments s @
          (if fst (check_environment w s)
           then list_of_option (fst (deploy_solana w s)) @
                list_of_option (fst (deploy_skale w s))
           else []))"
  using run_ledger [of sync_cross_chain w s s']
  by (simp add: deploy_solana_ledger deploy_skale_ledger run_full_deployment_def)

text \<open>
  The claim as stated fails: in \<open>world_ok\<close> the ledger is empty before \<open>deploy_solana\<close>
  and holds the new result after it, before the orchestrator does anything with the
  returned value.
\<close>

theorem deployer_appends_counterexample:
  "deployments (init world_ok) = []
   \<and> deployments (snd (deploy_solana world_ok (init world_ok))) = [solana_ABC123]"
  by code_simp

theorem deployer_appends_own_result_witness:
  "deployments (snd (deploy_solana world_ok (init world_ok))) = [solana_ABC123]
   \<and> (\<exists>s'. run_full_deployment world_ok (init world_ok) = Inr s'
          \<and> deployments s' = [solana_ABC123, skale_0xdef])"
proof -
  from run_returns [OF init_frame(1) refl, of sync_cross_chain world_ok]
  obtain s' where r: "run_full_deployment world_ok (init world_ok) = Inr s'"
    by (auto simp: run_full_deployment_def)
  from deployer_appends_own_result [of world_ok "init world_ok" s'] r
  show ?thesis
    by (simp add: world_ok_outcomes init_frame)
qed

section \<open>The orchestrator\<close>

text \<open>
  C6. In a run that passes the environment check, the branch taken after the two deploy
  calls is decided by how many of them returned a result. With two, the bridge step runs
  (its sync record, from the first address to the second, is on the console) and the
  report follows. With exactly one, no sync record is printed, the message naming the
  chain that succeeded is, and the one report printed counts and lists exactly one
  deployment. With none, the run ends with the message \<open>Both deployments failed.\<close> and no
  report is printed.
\<close>

theorem terminal_branch_by_successes:
  assumes "fst (check_environment w (init w))"
  shows
    "(\<forall>a b. fst (deploy_solana w (init w)) = Some a \<and> fst (deploy_skale w (init w)) = Some b
        \<longrightarrow> (\<exists>s r. main w = Inr s
               \<and> map source_address (sync_records (console s)) = [contract_address a]
               \<and> map target_address (sync_records (console s)) = [contract_address b]
               \<and> reports (console s) = [r] \<and> total_deployments r = 2
               \<and> map detail_shown (details r) = [result_shown a, result_shown b]))
   \<and> (\<forall>a. fst (deploy_solana w (init w)) = Some a \<and> fst (deploy_skale w (init w)) = None
        \<longrightarrow> (\<exists>s r. main w = Inr s \<and> sync_records (console s) = []
               \<and> Line ''Only Solana deployment successful. SKALE deployment failed.''
                    \<in> set (console s)
               \<and> reports (console s) = [r] \<and> total_deployments r = 1
               \<and> map detail_shown (details r) = [result_shown a]))
   \<and> (\<forall>b. fst (deploy_solana w (init w)) = None \<and> fst (deploy_skale w (init w)) = Some b
        \<longrightarrow> (\<exists>s r. main w = Inr s \<and> sync_records (console s) = []
               \<and> Line ''Only SKALE deployment successful. Solana deployment failed.''
                    \<in> set (console s)
               \<and> reports (console s) = [r] \<and> total_deployments r = 1
               \<and> map detail_shown (details r) = [result_shown b]))
   \<and> (fst (deploy_solana w (init w)) = None \<and> fst (deploy_skale w (init w)) = None
        \<longrightarrow> (\<exists>s. main w = Inr s \<and> sync_records (console s) = []
               \<and> reports (console s) = []
               \<and> last (console s) = Line ''Both deployments failed.''))"
proof (intro conjI allI impI; (elim conjE)?)
  fix a b
  assume a: "fst (deploy_solana w (init w)) = Some a"
    and b: "fst (deploy_skale w (init w)) = Some b"
  let ?d = "deployed w (init w)"
  let ?s = "?d\<lparr>console := console ?d @ snd (sync_cross_chain w a b)\<rparr>"
  have d: "deployments ?d = [a, b]"
    using a b by (simp add: deployed_frame init_frame)
  have "main w = Inr (finished w ?s)"
    unfolding main_def run_full_deployment_def
    by (rule run_both [OF init_frame(1) refl assms a b])
  moreover have "reports (console (finished w ?s)) = [report_of w ?s]"
    by (simp add: finished_frame deployed_frame init_console sync_cross_chain_printed)
  moreover have "map source_address (sync_records (console (finished w ?s))) =
                   [contract_address a]"
    by (simp add: finished_frame deployed_frame init_console sync_cross_chain_printed)
  moreover have "map target_address (sync_records (console (finished w ?s))) =
                   [contract_address b]"
    by (simp add: finished_frame deployed_frame init_console sync_cross_chain_printed)
  moreover have "total_deployments (report_of w ?s) = 2"
    by (simp add: report_of_fields(1) d)
  moreover have "map detail_shown (details (report_of w ?s)) = [result_shown a, result_shown b]"
    by (simp add: report_of_fields(4) d)
  ultimately show "\<exists>s r. main w = Inr s
               \<and> map source_address (sync_records (console s)) = [contract_address a]
               \<and> map target_address (sync_records (console s)) = [contract_address b]
               \<and> reports (console s) = [r] \<and> total_deployments r = 2
               \<and> map detail_shown (details r) = [result_shown a, result_shown b]"
    by (intro exI conjI) assumption+
next
  fix a
  assume a: "fst (deploy_solana w (init w)) = Some a"
    and b: "fst (deploy_skale w (init w)) = None"
  let ?s = "println ''Only Solana deployment successful. SKALE deployment failed.''
              (deployed w (init w))"
  have d: "deployments (deployed w (init w)) = [a]"
    using a b by (simp add: deployed_frame init_frame)
  have "main w = Inr (finished w ?s)"
    unfolding main_def run_full_deployment_def
    by (rule run_solana_only [OF init_frame(1) refl assms a b])
  moreover have "reports (console (finished w ?s)) = [report_of w ?s]"
    by (simp add: finished_frame deployed_frame init_console)
  moreover have "sync_records (console (finished w ?s)) = []"
    by (simp add: finished_frame deployed_frame init_console)
  moreover have "Line ''Only Solana deployment successful. SKALE deployment failed.''
                   \<in> set (console (finished w ?s))"
    by (simp add: finished_def println_def)
  moreover have "total_deployments (report_of w ?s) = 1"
    by (simp add: report_of_fields(1) d)
  moreover have "map detail_shown (details (report_of w ?s)) = [result_shown a]"
    by (simp add: report_of_fields(4) d)
  ultimately show "\<exists>s r. main w = Inr s \<and> sync_records (console s) = []
               \<and> Line ''Only Solana deployment successful. SKALE deployment failed.''
                    \<in> set (console s)
               \<and> reports (console s) = [r] \<and> total_deployments r = 1
               \<and> map detail_shown (details r) = [result_shown a]"
    by (intro exI conjI) assumption+
next
  fix b
  assume a: "fst (deploy_solana w (init w)) = None"
    and b: "fst (deploy_skale w (init w)) = Some b"
  let ?s = "println ''Only SKALE deployment successful. Solana deployment failed.''
              (deployed w (init w))"
  have d: "deployments (deployed w (init w)) = [b]"
    using a b by (simp add: deployed_frame init_frame)
  have "main w = Inr (finished w ?s)"
    unfolding main_def run_full_deployment_def
    by (rule run_skale_only [OF init_frame(1) refl assms a b])
  moreover have "reports (console (finished w ?s)) = [report_of w ?s]"
    by (simp add: finished_frame deployed_frame init_console)
  moreover have "sync_records (console (finished w ?s)) = []"
    by (simp add: finished_frame deployed_frame init_console)
  moreover have "Line ''Only SKALE deployment successful. Solana deployment failed.''
                   \<in> set (console (finished w ?s))"
    by (simp add: finished_def println_def)
  moreover have "total_deployments (report_of w ?s) = 1"
    by (simp add: report_of_fields(1) d)
  moreover have "map detail_shown (details (report_of w ?s)) = [result_shown b]"
    by (simp add: report_of_fields(4) d)
  ultimately show "\<exists>s r. main w = Inr s \<and> sync_records (console s) = []
               \<and> Line ''Only SKALE deployment successful. Solana deployment failed.''
                    \<in> set (console s)
               \<and> reports (console s) = [r] \<and> total_deployments r = 1
               \<and> map detail_shown (details r) = [result_shown b]"
    by (intro exI conjI) assumption+
next
  assume a: "fst (deploy_solana w (init w)) = None"
    and b: "fst (deploy_skale w (init w)) = None"
  let ?s = "println ''Both deployments failed.'' (deployed w (init w))"
  have "main w = Inr ?s"
    unfolding main_def run_full_deployment_def
    by (rule run_none [OF assms a b])
  moreover have "reports (console ?s) = []" "sync_records (console ?s) = []"
    by (simp_all add: deployed_frame init_console)
  moreover have "last (console ?s) = Line ''Both deployments failed.''"
    by (simp add: println_def)
  ultimately show "\<exists>s. main w = Inr s \<and> sync_records (console s) = []
               \<and> reports (console s) = []
               \<and> last (console s) = Line ''Both deployments failed.''"
    by (intro exI conjI) assumption+
qed

theorem terminal_branch_by_successes_witness:
  "(\<exists>s r. main world_ok = Inr s
      \<and> map source_address (sync_records (console s)) = [''ABC123'']
      \<and> map target_address (sync_records (console s)) = [''0xdef'']
      \<and> reports (console s) = [r] \<and> total_deployments r = 2)
   \<and> (\<exists>s r. main world_skale_failed = Inr s \<and> sync_records (console s) = []
      \<and> Line ''Only Solana deployment successful. SKALE deployment failed.''
           \<in> set (console s)
      \<and> reports (console s) = [r] \<and> total_deployments r = 1
      \<and> map detail_shown (details r) = [result_shown solana_ABC123])
   \<and> (\<exists>s. main world_failed = Inr s \<and> sync_records (console s) = []
      \<and> reports (console s) = [] \<and> last (console s) = Line ''Both deployments failed.'')"
proof -
  have a: "contract_address solana_ABC123 = ''ABC123''"
    "contract_address skale_0xdef = ''0xdef''"
    by (simp_all add: solana_ABC123_def skale_0xdef_def)
  from terminal_branch_by_successes [OF world_ok_outcomes(1)]
    world_ok_outcomes(2,3) [of "init world_ok"] a
  have 1: "\<exists>s r. main world_ok = Inr s
      \<and> map source_address (sync_records (console s)) = [''ABC123'']
      \<and> map target_address (sync_records (console s)) = [''0xdef'']
      \<and> reports (console s) = [r] \<and> total_deployments r = 2"
    by auto
  from terminal_branch_by_successes [OF world_skale_failed_outcomes(1)]
    world_skale_failed_outcomes(2,3) [of "init world_skale_failed"]
  have 2: "\<exists>s r. main world_skale_failed = Inr s \<and> sync_records (console s) = []
      \<and> Line ''Only Solana deployment successful. SKALE deployment failed.''
           \<in> set (console s)
      \<and> reports (console s) = [r] \<and> total_deployments r = 1
      \<and> map detail_shown (details r) = [result_shown solana_ABC123]"
    by auto
  from terminal_branch_by_successes [OF world_failed_outcomes(1)]
    world_failed_outcomes(2,3) [of "init world_failed"]
  have 3: "\<exists>s. main world_failed = Inr s \<and> sync_records (console s) = []
      \<and> reports (console s) = [] \<and> last (console s) = Line ''Both deployments failed.''"
    by auto
  from 1 2 3 show ?thesis by blast
qed

text \<open>
  C9. Along every run from a fresh deployer, the ledger only grows at its end (each
  ledger is a prefix of every later one), it never holds two results of one chain, and
  every result in it is the one a deployer returned after its deploy script exited with
  status 0 (and, for Solana, after the build succeeded). \<open>run_states\<close> lists the
  deployers of the run in order, and the last of them is what the run returns.
\<close>

theorem ledger_invariant:
  "sorted_wrt prefix (map deployments (run_states w (init w)))
   \<and> (\<forall>s \<in> set (run_states w (init w)). distinct (map chain (deployments s)))
   \<and> (\<forall>s \<in> set (run_states w (init w)). \<forall>d \<in> set (deployments s).
        (chain d = ''solana'' \<and> fst (deploy_solana w (init w)) = Some d
           \<and> anchor_build w = Built \<and> (\<exists>out err. solana_deploy w = Completed 0 out err))
        \<or> (chain d = ''skale'' \<and> fst (deploy_skale w (init w)) = Some d
           \<and> (\<exists>out err. skale_deploy w = Completed 0 out err)))
   \<and> main w = Inr (last (run_states w (init w)))"
proof -
  let ?l1 = "list_of_option (fst (deploy_solana w (init w)))"
  let ?l2 = "list_of_option (fst (deploy_skale w (init w)))"
  let ?L = "map deployments (run_states w (init w))"
  let ?ok = "\<lambda>d. (chain d = ''solana'' \<and> fst (deploy_solana w (init w)) = Some d
           \<and> anchor_build w = Built \<and> (\<exists>out err. solana_deploy w = Completed 0 out err))
        \<or> (chain d = ''skale'' \<and> fst (deploy_skale w (init w)) = Some d
           \<and> (\<exists>out err. skale_deploy w = Completed 0 out err))"
  have L: "set ?L \<subseteq> {[], ?l1, ?l1 @ ?l2}"
    by (simp add: run_states_ledgers(1))
  have s1: "chain d = ''solana'' \<and> ?ok d" if "d \<in> set ?l1" for d
  proof -
    from that have r: "fst (deploy_solana w (init w)) = Some d"
      by (cases "fst (deploy_solana w (init w))") simp_all
    from deploy_solana_Some [OF r] deploy_solana_fields(1) [OF r] r show ?thesis
      by blast
  qed
  have s2: "chain d = ''skale'' \<and> ?ok d" if "d \<in> set ?l2" for d
  proof -
    from that have r: "fst (deploy_skale w (init w)) = Some d"
      by (cases "fst (deploy_skale w (init w))") simp_all
    from deploy_skale_Some [OF r] deploy_skale_fields(1) [OF r] r show ?thesis
      by blast
  qed
  have dist: "distinct (map chain (?l1 @ ?l2))"
  proof -
    have "distinct (map chain ?l1)" "distinct (map chain ?l2)"
      by (cases "fst (deploy_solana w (init w))", simp_all)
         (cases "fst (deploy_skale w (init w))", simp_all)
    moreover have "set (map chain ?l1) \<inter> set (map chain ?l2) = {}"
      using s1 s2 by fastforce
    ultimately show ?thesis by simp
  qed
  then have dist1: "distinct (map chain ?l1)" by simp
  have A: "sorted_wrt prefix ?L"
    by (simp add: run_states_ledgers(1))
  have B: "\<forall>l \<in> set ?L. distinct (map chain l)"
    using L dist dist1 by auto
  have C: "\<forall>l \<in> set ?L. \<forall>d \<in> set l. ?ok d"
    using L s1 s2 by fastforce
  from B have B': "\<forall>s \<in> set (run_states w (init w)). distinct (map chain (deployments s))"
    by simp
  from C have C': "\<forall>s \<in> set (run_states w (init w)). \<forall>d \<in> set (deployments s). ?ok d"
    by simp
  from A B' C' run_states_ledgers(2) show ?thesis by blast
qed

theorem ledger_invariant_witness:
  "map deployments (run_states world_ok (init world_ok)) =
     [[], [], [], [solana_ABC123], [solana_ABC123, skale_0xdef],
      [solana_ABC123, skale_0xdef]]
   \<and> sorted_wrt prefix (map deployments (run_states world_ok (init world_ok)))
   \<and> last (run_states world_ok (init world_ok)) \<in> set (run_states world_ok (init world_ok))
   \<and> distinct (map chain (deployments (last (run_states world_ok (init world_ok)))))
   \<and> main world_ok = Inr (last (run_states world_ok (init world_ok)))"
proof -
  have L: "map deployments (run_states world_ok (init world_ok)) =
     [[], [], [], [solana_ABC123], [solana_ABC123, skale_0xdef],
      [solana_ABC123, skale_0xdef]]"
    by (simp add: run_states_ledgers(1) world_ok_outcomes)
  then have "run_states world_ok (init world_ok) \<noteq> []"
    by auto
  then have m: "last (run_states world_ok (init world_ok))
                  \<in> set (run_states world_ok (init world_ok))"
    by simp
  from ledger_invariant [of world_ok] m
  have "distinct (map chain (deployments (last (run_states world_ok (init world_ok)))))"
    by blast
  with ledger_invariant [of world_ok] L m show ?thesis
    by blast
qed

section \<open>The fee total of the report\<close>

lemma generate_report_details:
  assumes "generate_report w s = Inr s'"
  shows "\<exists>t r. total_savings (deployments s) = Inr t
           \<and> operands t = map relayer_fee (deployments s)
           \<and> reports (console s') = reports (console s) @ [r]
           \<and> map (\<lambda>x. fst (detail_relayer_fee x)) (details r) =
               map relayer_fee (deployments s)
           \<and> map (\<lambda>x. Some (snd (detail_relayer_fee x))) (details r) =
               map (token_of (chains s)) (deployments s)"
proof -
  let ?r = "report_of w s"
  let ?cfgs = "map (\<lambda>d. the (map_of (chains s) (chain d))) (deployments s)"
  let ?z = "zip [1 ..< Suc (length (deployments s))] (zip (deployments s) ?cfgs)"
  from generate_report_total [OF assms]
  obtain t where t: "total_savings (deployments s) = Inr t" by blast
  from sum_fees_Inr [OF t [unfolded total_savings_def]]
  have 1: "operands t = map relayer_fee (deployments s)"
    by (simp add: operands_foldl)
  from generate_report_Inr [OF assms]
  have 2: "reports (console s') = reports (console s) @ [?r]"
    by simp
  from generate_report_chains_known [OF assms]
  have known: "\<forall>d \<in> set (deployments s). map_of (chains s) (chain d) \<noteq> None" .
  have l: "length [1 ..< Suc (length (deployments s))] = length (deployments s)"
    by (simp only: length_upt diff_Suc_1)
  have z: "map snd ?z = zip (deployments s) ?cfgs"
    using l by (simp add: map_snd_zip)
  have "map (\<lambda>x. fst (detail_relayer_fee x)) (details ?r) =
        map (\<lambda>y. relayer_fee (fst y)) (map snd ?z)"
    by (simp add: report_of_def detail_of_def case_prod_beta comp_def)
  also have "\<dots> = map relayer_fee (deployments s)"
    unfolding z by (simp add: zip_map2 comp_def zip_same_conv_map)
  finally have 3: "map (\<lambda>x. fst (detail_relayer_fee x)) (details ?r) =
                     map relayer_fee (deployments s)" .
  have "map (\<lambda>x. Some (snd (detail_relayer_fee x))) (details ?r) =
        map (\<lambda>y. Some (native_token (snd y))) (map snd ?z)"
    by (simp add: report_of_def detail_of_def case_prod_beta comp_def)
  also have "\<dots> =
        map (\<lambda>d. Some (native_token (the (map_of (chains s) (chain d))))) (deployments s)"
    unfolding z by (simp add: zip_map2 comp_def zip_same_conv_map)
  also have "\<dots> = map (token_of (chains s)) (deployments s)"
    using known by (intro map_cong) (auto simp: token_of_def)
  finally have 4: "map (\<lambda>x. Some (snd (detail_relayer_fee x))) (details ?r) =
                     map (token_of (chains s)) (deployments s)" .
  from t 1 2 3 4 show ?thesis
    by (intro exI conjI) assumption+
qed

text \<open>
  C1, as amended. The total that \<open>generate_report\<close> computes is one sum: its operands
  are the relayer fees of all deployments in the ledger, in ledger order, whatever the
  native tokens of their chains, and it is computed for every ledger whose fees \<open>float\<close>
  accepts. Nothing is grouped by token before summing; only the detail block of each
  deployment gives its fee together with the native token of its own chain.
\<close>

theorem total_savings_one_sum:
  "(total_savings ds = Inr t \<longrightarrow> operands t = map relayer_fee ds)
   \<and> ((\<exists>t. total_savings ds = Inr t) = (\<forall>d \<in> set ds. float_accepts (relayer_fee d)))
   \<and> (generate_report w s = Inr s' \<longrightarrow>
        (\<exists>t r. total_savings (deployments s) = Inr t
           \<and> operands t = map relayer_fee (deployments s)
           \<and> reports (console s') = reports (console s) @ [r]
           \<and> map (\<lambda>x. fst (detail_relayer_fee x)) (details r) =
               map relayer_fee (deployments s)
           \<and> map (\<lambda>x. Some (snd (detail_relayer_fee x))) (details r) =
               map (token_of (chains s)) (deployments s)))"
proof (intro conjI impI)
  assume "total_savings ds = Inr t"
  from sum_fees_Inr [OF this [unfolded total_savings_def]]
  show "operands t = map relayer_fee ds"
    by (simp add: operands_foldl)
next
  show "(\<exists>t. total_savings ds = Inr t) = (\<forall>d \<in> set ds. float_accepts (relayer_fee d))"
  proof
    assume "\<exists>t. total_savings ds = Inr t"
    then obtain t where "sum_fees Int0 ds = Inr t"
      by (auto simp: total_savings_def)
    from sum_fees_Inr [OF this] show "\<forall>d \<in> set ds. float_accepts (relayer_fee d)"
      by blast
  next
    assume "\<forall>d \<in> set ds. float_accepts (relayer_fee d)"
    from sum_fees_ok [OF this, of Int0] show "\<exists>t. total_savings ds = Inr t"
      by (simp add: total_savings_def)
  qed
next
  assume "generate_report w s = Inr s'"
  then show "\<exists>t r. total_savings (deployments s) = Inr t
           \<and> operands t = map relayer_fee (deployments s)
           \<and> reports (console s') = reports (console s) @ [r]
           \<and> map (\<lambda>x. fst (detail_relayer_fee x)) (details r) =
               map relayer_fee (deployments s)
           \<and> map (\<lambda>x. Some (snd (detail_relayer_fee x))) (details r) =
               map (token_of (chains s)) (deployments s)"
    by (rule generate_report_details)
qed

text \<open>
  The ledger with which the run in \<open>world_ok\<close> reaches \<open>generate_report\<close>, and what the
  report gives for it.
\<close>

lemma world_ok_ledger:
  "deployments (deployed world_ok (init world_ok)) = [solana_ABC123, skale_0xdef]"
  "token_of (chains (deployed world_ok (init world_ok))) solana_ABC123 = Some ''SOL''"
  "token_of (chains (deployed world_ok (init world_ok))) skale_0xdef = Some ''sFUEL''"
  "relayer_fee solana_ABC123 = ''0.001''" "relayer_fee skale_0xdef = ''0.01''"
  by (simp_all add: deployed_frame init_frame world_ok_outcomes token_of_def
        solana_ABC123_def skale_0xdef_def)

lemma world_ok_report:
  "generate_report world_ok (deployed world_ok (init world_ok)) =
     Inr ((deployed world_ok (init world_ok))
            \<lparr>console := console (deployed world_ok (init world_ok)) @
               [Line ''Deployment Report'',
                ReportOut (report_of world_ok (deployed world_ok (init world_ok)))]\<rparr>)"
  by (rule generate_report_ok; rule deployed_reportable [OF init_frame(1) refl])
     (simp_all add: deployed_frame(2))

theorem total_savings_one_sum_witness:
  "(\<exists>t (r :: Report). total_savings [solana_ABC123, skale_0xdef] = Inr t
      \<and> operands t = [''0.001'', ''0.01'']
      \<and> map detail_relayer_fee (details r) = [(''0.001'', ''SOL''), (''0.01'', ''sFUEL'')])
   \<and> float_accepts (relayer_fee solana_ABC123)
   \<and> float_accepts (relayer_fee skale_0xdef)"
proof -
  let ?D = "deployed world_ok (init world_ok)"
  let ?S = "?D\<lparr>console := console ?D @
              [Line ''Deployment Report'', ReportOut (report_of world_ok ?D)]\<rparr>"
  have p: "xs = [(''0.001'', ''SOL''), (''0.01'', ''sFUEL'')]"
    if "map fst xs = [''0.001'', ''0.01'']"
      and "map (\<lambda>x. Some (snd x)) xs = [Some ''SOL'', Some ''sFUEL'']"
    for xs :: "(string \<times> string) list"
    using that by (auto simp: map_eq_Cons_conv)
  note T = total_savings_one_sum
             [of "deployments ?D" Int0 world_ok ?D ?S,
              THEN conjunct2, THEN conjunct2, THEN mp, OF world_ok_report]
  from T obtain t where "\<exists>r. total_savings (deployments ?D) = Inr t
           \<and> operands t = map relayer_fee (deployments ?D)
           \<and> reports (console ?S) = reports (console ?D) @ [r]
           \<and> map (\<lambda>x. fst (detail_relayer_fee x)) (details r) =
               map relayer_fee (deployments ?D)
           \<and> map (\<lambda>x. Some (snd (detail_relayer_fee x))) (details r) =
               map (token_of (chains ?D)) (deployments ?D)" ..
  then obtain r where c: "total_savings (deployments ?D) = Inr t
           \<and> operands t = map relayer_fee (deployments ?D)
           \<and> reports (console ?S) = reports (console ?D) @ [r]
           \<and> map (\<lambda>x. fst (detail_relayer_fee x)) (details r) =
               map relayer_fee (deployments ?D)
           \<and> map (\<lambda>x. Some (snd (detail_relayer_fee x))) (details r) =
               map (token_of (chains ?D)) (deployments ?D)" ..
  note t = c [THEN conjunct1]
    and o = c [THEN conjunct2, THEN conjunct1]
    and f = c [THEN conjunct2, THEN conjunct2, THEN conjunct2, THEN conjunct1]
    and k = c [THEN conjunct2, THEN conjunct2, THEN conjunct2, THEN conjunct2]
  from f k have "map detail_relayer_fee (details r) =
                   [(''0.001'', ''SOL''), (''0.01'', ''sFUEL'')]"
    by (intro p) (simp_all add: comp_def world_ok_ledger)
  moreover from t have "total_savings [solana_ABC123, skale_0xdef] = Inr t"
    by (simp add: world_ok_ledger(1))
  moreover from o have "operands t = [''0.001'', ''0.01'']"
    by (simp add: world_ok_ledger)
  moreover have "float_accepts (relayer_fee solana_ABC123)"
    "float_accepts (relayer_fee skale_0xdef)"
    by (simp_all add: world_ok_ledger(4,5) float_accepts_fees)
  ultimately show ?thesis by (intro conjI exI) assumption+
qed

text \<open>
  The claim as stated fails: the ledger of the run in \<open>world_ok\<close> holds a deployment on
  a chain whose native token is SOL and one on a chain whose native token is sFUEL, and
  the total is the single sum \<open>(0 + float('0.001')) + float('0.01')\<close> of the fee of the
  first and the fee of the second.
\<close>

theorem total_savings_mixes_tokens_counterexample:
  "deployments (deployed world_ok (init world_ok)) = [solana_ABC123, skale_0xdef]
   \<and> token_of (chains (deployed world_ok (init world_ok))) solana_ABC123 = Some ''SOL''
   \<and> token_of (chains (deployed world_ok (init world_ok))) skale_0xdef = Some ''sFUEL''
   \<and> relayer_fee solana_ABC123 = ''0.001''
   \<and> relayer_fee skale_0xdef = ''0.01''
   \<and> total_savings (deployments (deployed world_ok (init world_ok))) =
       Inr (Plus (Plus Int0 ''0.001'') ''0.01'')"
proof -
  have "total_savings [solana_ABC123, skale_0xdef] = Inr (Plus (Plus Int0 ''0.001'') ''0.01'')"
    by (simp add: total_savings_def world_ok_ledger(4,5) float_accepts_fees)
  then show ?thesis
    by (simp add: world_ok_ledger)
qed

end
